theory Spec2Isabelle
  imports Complex_Main
begin

section \<open>Python values, dictionaries and data frames\<close>

text \<open>
  The values that travel through \<^verbatim>\<open>compute_features\<close> (bycycle/features/features.py).
  The function never computes with them: it stores them under keys, reads them back and
  hands them on. A dictionary held as a value of another dictionary (\<^verbatim>\<open>filter_kwargs\<close>,
  \<^verbatim>\<open>find_extrema_kwargs\<close>) is never changed by the function and is carried as a value.
\<close>

datatype pyval =
    PNone
  | PBool bool
  | PInt int
  | PFloat real
  | PNaN
  | PStr string
  | PTuple "pyval list"
  | PList "pyval list"
  | PDict "(string \<times> pyval) list"

text \<open>A keyword dictionary: string keys, looked up by key.\<close>

type_synonym dict = "string \<rightharpoonup> pyval"

text \<open>
  A \<^verbatim>\<open>pandas.DataFrame\<close>: the row labels and, in order, the named columns, each holding
  one cell per row label. Column names may repeat.
\<close>

record dataframe =
  df_index :: "nat list"
  df_columns :: "(string \<times> pyval list) list"

definition column_names :: "dataframe \<Rightarrow> string list" where
  "column_names df = map fst (df_columns df)"

definition n_rows :: "dataframe \<Rightarrow> nat" where
  "n_rows df = length (df_index df)"

section \<open>The argument \<^verbatim>\<open>burst_detection_kwargs\<close> and the store\<close>

text \<open>
  \<^verbatim>\<open>burst_detection_kwargs\<close> is either a dictionary object, which the caller shares with the
  function (it is passed by reference, and \<^verbatim>\<open>dict.pop\<close> changes it in place), or some
  other value: \<^verbatim>\<open>None\<close> (the default), a number, a string, a tuple, a list. The store
  maps the address of each dictionary object to its present contents.
\<close>

datatype nondict =
    NNone
  | NBool bool
  | NInt int
  | NFloat real
  | NStr string
  | NTuple "pyval list"
  | NList "pyval list"

datatype kwargs_arg = DictRef nat | NonDict nondict

type_synonym store = "nat \<Rightarrow> dict"

section \<open>Exceptions, collaborators and the record of their calls\<close>

text \<open>
  \<^verbatim>\<open>AttributeError\<close>, \<^verbatim>\<open>TypeError\<close> and \<^verbatim>\<open>ValueError\<close> are the exceptions raised by the
  statements of \<^verbatim>\<open>compute_features\<close> itself; \<open>Raised msg\<close> is an exception raised inside
  one of the functions it calls, which it does not catch.
\<close>

datatype error = AttributeError | TypeError | ValueError | Raised string

text \<open>
  The functions \<^verbatim>\<open>compute_features\<close> imports and calls. Their code is not in features.py,
  so they are parameters of the model: each is a function of the arguments it is called
  with, returning its result or the message of the exception it raises.
  \<^item> \<open>compute_shape_features sig fs f_range center_extrema find_extrema_kwargs hilbert_increase_n\<close>
    returns \<open>(df_shape_features, df_samples)\<close>;
  \<^item> \<open>compute_burst_features df_shape_features df_samples sig dual_threshold_kwargs\<close>;
  \<^item> \<open>pd_concat a b\<close> is \<^verbatim>\<open>pd.concat((a, b), axis=1)\<close>;
  \<^item> \<open>detect_bursts_cycles df kwargs\<close> is \<^verbatim>\<open>detect_bursts_cycles(df, **kwargs)\<close>;
  \<^item> \<open>detect_bursts_df_amp df kwargs\<close> is \<^verbatim>\<open>detect_bursts_df_amp(df, **kwargs)\<close>.
\<close>

record collaborators =
  compute_shape_features ::
    "real list \<Rightarrow> pyval \<Rightarrow> pyval \<Rightarrow> string \<Rightarrow> pyval \<Rightarrow> bool \<Rightarrow> string + (dataframe \<times> dataframe)"
  compute_burst_features ::
    "dataframe \<Rightarrow> dataframe \<Rightarrow> real list \<Rightarrow> dict option \<Rightarrow> string + dataframe"
  pd_concat :: "dataframe \<Rightarrow> dataframe \<Rightarrow> string + dataframe"
  detect_bursts_cycles :: "dataframe \<Rightarrow> dict \<Rightarrow> string + dataframe"
  detect_bursts_df_amp :: "dataframe \<Rightarrow> dict \<Rightarrow> string + dataframe"

text \<open>One entry per call made to a collaborator, with the arguments of the call.\<close>

datatype event =
    ShapeCall "real list" pyval pyval string pyval bool
  | BurstCall dataframe dataframe "real list" "dict option"
  | ConcatCall dataframe dataframe
  | CyclesCall dataframe dict
  | DfAmpCall dataframe dict

text \<open>What the function returns: the table alone, or the table and the cyclepoints.\<close>

datatype ret = Features dataframe | FeaturesSamples dataframe dataframe

text \<open>
  The outcome of a call: the value returned or the exception raised, the store the call
  leaves behind, and the calls it made to its collaborators, in order.
\<close>

record outcome =
  result :: "error + ret"
  final_store :: store
  calls :: "event list"

section \<open>\<^verbatim>\<open>compute_features\<close>\<close>

text \<open>\<^verbatim>\<open>d.pop(key, default)\<close>: the value under the key (or the default) and the dictionary
  without the key.\<close>

definition dict_pop :: "string \<Rightarrow> pyval \<Rightarrow> dict \<Rightarrow> pyval \<times> dict" where
  "dict_pop key dflt d =
     (case d key of
        Some v \<Rightarrow> (v, d(key := None))
      | None \<Rightarrow> (dflt, d))"

text \<open>
  Lines 112-118, on a dictionary \<open>d\<close>: the dictionary \<^verbatim>\<open>dual_threshold_kwargs\<close> that is
  built, and \<open>d\<close> as the two \<^verbatim>\<open>pop\<close> calls leave it. \<^verbatim>\<open>n_cycles_min\<close> is read with
  \<^verbatim>\<open>in\<close> and indexing, not popped.
\<close>

definition resolve_dual_threshold :: "pyval \<Rightarrow> pyval \<Rightarrow> dict \<Rightarrow> dict \<times> dict" where
  "resolve_dual_threshold fs f_range d =
     (let (amp_threshes, d1) = dict_pop ''amp_threshes'' (PTuple [PInt 1, PInt 2]) d;
          (filter_kwargs, d2) = dict_pop ''filter_kwargs'' PNone d1;
          n_cycles_min = (case d2 ''n_cycles_min'' of Some v \<Rightarrow> v | None \<Rightarrow> PInt 3)
      in ([''fs'' \<mapsto> fs,
           ''f_range'' \<mapsto> f_range,
           ''amp_threshes'' \<mapsto> amp_threshes,
           ''filter_kwargs'' \<mapsto> filter_kwargs,
           ''n_cycles_min'' \<mapsto> n_cycles_min],
          d2))"

text \<open>
  \<^verbatim>\<open>x.pop('amp_threshes', (1, 2))\<close> (line 115) on a value that is not a dictionary:
  a list has a \<^verbatim>\<open>pop\<close> that takes at most one argument (\<^verbatim>\<open>TypeError\<close>); \<^verbatim>\<open>None\<close>,
  numbers, strings and tuples have no attribute \<^verbatim>\<open>pop\<close> (\<^verbatim>\<open>AttributeError\<close>).
\<close>

fun pop_on_nondict :: "nondict \<Rightarrow> error" where
  "pop_on_nondict (NList xs) = TypeError"
| "pop_on_nondict v = AttributeError"

text \<open>
  Lines 110-122: \<^verbatim>\<open>dual_threshold_kwargs\<close> (\<open>None\<close> outside amplitude mode) or the
  exception raised, and the store afterwards.
\<close>

definition dual_threshold_kwargs ::
  "string \<Rightarrow> pyval \<Rightarrow> pyval \<Rightarrow> kwargs_arg \<Rightarrow> store \<Rightarrow> (error + dict option) \<times> store" where
  "dual_threshold_kwargs burst_detection_method fs f_range burst_detection_kwargs \<sigma> =
     (if burst_detection_method = ''amplitude'' then
        (case burst_detection_kwargs of
           DictRef r \<Rightarrow>
             (let (dual, d') = resolve_dual_threshold fs f_range (\<sigma> r)
              in (Inr (Some dual), \<sigma>(r := d')))
         | NonDict v \<Rightarrow> (Inl (pop_on_nondict v), \<sigma>))
      else (Inr None, \<sigma>))"

text \<open>
  Lines 132-133: the dictionary that is unpacked into the classifier's keyword arguments;
  anything that is not a \<^verbatim>\<open>dict\<close> is replaced by the empty dictionary. The name is
  rebound locally: the caller's object is not touched.
\<close>

definition unpack_kwargs :: "kwargs_arg \<Rightarrow> store \<Rightarrow> dict" where
  "unpack_kwargs burst_detection_kwargs \<sigma> =
     (case burst_detection_kwargs of
        DictRef r \<Rightarrow> \<sigma> r
      | NonDict v \<Rightarrow> Map.empty)"

text \<open>
  Lines 136-142: the dispatch on \<^verbatim>\<open>burst_detection_method\<close>, with the calls it makes.
\<close>

definition detect_bursts ::
  "collaborators \<Rightarrow> string \<Rightarrow> dataframe \<Rightarrow> dict \<Rightarrow> (error + dataframe) \<times> event list" where
  "detect_bursts C burst_detection_method df_features kwargs =
     (if burst_detection_method = ''cycles'' then
        (case detect_bursts_cycles C df_features kwargs of
           Inl msg \<Rightarrow> (Inl (Raised msg), [CyclesCall df_features kwargs])
         | Inr df \<Rightarrow> (Inr df, [CyclesCall df_features kwargs]))
      else if burst_detection_method = ''amplitude'' then
        (case detect_bursts_df_amp C df_features kwargs of
           Inl msg \<Rightarrow> (Inl (Raised msg), [DfAmpCall df_features kwargs])
         | Inr df \<Rightarrow> (Inr df, [DfAmpCall df_features kwargs]))
      else (Inl ValueError, []))"

text \<open>
  The whole function, lines 103-147, statement by statement. An exception ends the call
  where it is raised; the store and the calls made up to that point are kept.
\<close>

definition compute_features ::
  "collaborators \<Rightarrow> real list \<Rightarrow> pyval \<Rightarrow> pyval \<Rightarrow> string \<Rightarrow> string \<Rightarrow> kwargs_arg \<Rightarrow> pyval \<Rightarrow>
   bool \<Rightarrow> bool \<Rightarrow> store \<Rightarrow> outcome" where
  "compute_features C sig fs f_range center_extrema burst_detection_method
     burst_detection_kwargs find_extrema_kwargs hilbert_increase_n return_samples \<sigma> =
     (let ev1 = ShapeCall sig fs f_range center_extrema find_extrema_kwargs hilbert_increase_n in
      case compute_shape_features C sig fs f_range center_extrema find_extrema_kwargs
             hilbert_increase_n of
        Inl msg \<Rightarrow> \<lparr>result = Inl (Raised msg), final_store = \<sigma>, calls = [ev1]\<rparr>
      | Inr (df_shape_features, df_samples) \<Rightarrow>
         (case dual_threshold_kwargs burst_detection_method fs f_range
                 burst_detection_kwargs \<sigma> of
            (Inl e, \<sigma>') \<Rightarrow> \<lparr>result = Inl e, final_store = \<sigma>', calls = [ev1]\<rparr>
          | (Inr dual, \<sigma>') \<Rightarrow>
             (let ev2 = BurstCall df_shape_features df_samples sig dual in
              case compute_burst_features C df_shape_features df_samples sig dual of
                Inl msg \<Rightarrow>
                  \<lparr>result = Inl (Raised msg), final_store = \<sigma>', calls = [ev1, ev2]\<rparr>
              | Inr df_burst_features \<Rightarrow>
                 (let ev3 = ConcatCall df_shape_features df_burst_features in
                  case pd_concat C df_shape_features df_burst_features of
                    Inl msg \<Rightarrow>
                      \<lparr>result = Inl (Raised msg), final_store = \<sigma>',
                       calls = [ev1, ev2, ev3]\<rparr>
                  | Inr df_features \<Rightarrow>
                     (case detect_bursts C burst_detection_method df_features
                             (unpack_kwargs burst_detection_kwargs \<sigma>') of
                        (Inl e, evs) \<Rightarrow>
                          \<lparr>result = Inl e, final_store = \<sigma>',
                           calls = [ev1, ev2, ev3] @ evs\<rparr>
                      | (Inr df, evs) \<Rightarrow>
                          \<lparr>result =
                             Inr (if return_samples then FeaturesSamples df df_samples
                                  else Features df),
                           final_store = \<sigma>', calls = [ev1, ev2, ev3] @ evs\<rparr>)))))"

text \<open>The table of a returned value, whichever of the two forms it has.\<close>

fun features_of :: "ret \<Rightarrow> dataframe" where
  "features_of (Features df) = df"
| "features_of (FeaturesSamples df df_samples) = df"

text \<open>Which calls belong to the consistency path and which to the dual-threshold path:
  the burst-feature call by its \<^verbatim>\<open>dual_threshold_kwargs\<close>, the classifier call by its
  function. The shape and concatenation calls belong to both.\<close>

fun consistency_call :: "event \<Rightarrow> bool" where
  "consistency_call (BurstCall df_shape df_samples sig dual) = (dual = None)"
| "consistency_call (CyclesCall df kwargs) = True"
| "consistency_call (DfAmpCall df kwargs) = False"
| "consistency_call ev = True"

fun dual_threshold_call :: "event \<Rightarrow> bool" where
  "dual_threshold_call (BurstCall df_shape df_samples sig dual) = (dual \<noteq> None)"
| "dual_threshold_call (CyclesCall df kwargs) = False"
| "dual_threshold_call (DfAmpCall df kwargs) = True"
| "dual_threshold_call ev = True"

fun classifier_call :: "event \<Rightarrow> bool" where
  "classifier_call (CyclesCall df kwargs) = True"
| "classifier_call (DfAmpCall df kwargs) = True"
| "classifier_call ev = False"

section \<open>\<^verbatim>\<open>pandas.concat\<close> along the columns\<close>

text \<open>
  \<^verbatim>\<open>pd.concat((a, b), axis=1)\<close> with the defaults the call at line 129 leaves in place
  (\<^verbatim>\<open>join='outer'\<close>, \<^verbatim>\<open>verify_integrity=False\<close>), after the pandas documentation;
  pandas is a library, not part of this repository. Only its behaviour on two frames that
  carry the same row labels is used: the labels are kept and the columns of \<open>b\<close> follow
  those of \<open>a\<close>; column names are not compared. Nothing is said about frames whose row
  labels differ.
\<close>

definition concat_of_aligned_frames :: "collaborators \<Rightarrow> bool" where
  "concat_of_aligned_frames C \<longleftrightarrow>
     (\<forall>a b. df_index a = df_index b \<longrightarrow>
        pd_concat C a b =
          Inr \<lparr>df_index = df_index a, df_columns = df_columns a @ df_columns b\<rparr>)"

section \<open>What the collaborators are taken to do\<close>

text \<open>
  Modelled from the spec: \<^verbatim>\<open>compute_burst_features\<close> (bycycle/features/burst.py) is not
  among the sources. The spec's data model has one BurstMetricRow per cycle, in cycle
  order: a table it returns carries the row labels of the shape table it was given.
\<close>

definition burst_rows_per_cycle :: "collaborators \<Rightarrow> bool" where
  "burst_rows_per_cycle C \<longleftrightarrow>
     (\<forall>df_shape df_samples sig dual df_burst.
        compute_burst_features C df_shape df_samples sig dual = Inr df_burst \<longrightarrow>
        df_index df_burst = df_index df_shape)"

text \<open>
  Modelled from the spec: the classifiers \<^verbatim>\<open>detect_bursts_cycles\<close> and
  \<^verbatim>\<open>detect_bursts_df_amp\<close> (bycycle/burst) are not among the sources. The spec has each
  produce a boolean \<^verbatim>\<open>is_burst\<close> column per cycle, appended to the merged table: a
  table they return carries the row labels of the table they were given.
\<close>

definition classifiers_keep_rows :: "collaborators \<Rightarrow> bool" where
  "classifiers_keep_rows C \<longleftrightarrow>
     (\<forall>df kwargs out.
        (detect_bursts_cycles C df kwargs = Inr out \<longrightarrow> df_index out = df_index df) \<and>
        (detect_bursts_df_amp C df kwargs = Inr out \<longrightarrow> df_index out = df_index df))"

text \<open>
  Modelled from the spec: the same two classifiers, absent from the sources, produce "the
  final FeatureTable with \<^verbatim>\<open>is_burst\<close> appended", a boolean per cycle: a table they
  return is the table they were given with one more column at the end, named
  \<^verbatim>\<open>is_burst\<close>, holding one boolean for each row.
\<close>

definition with_is_burst :: "dataframe \<Rightarrow> bool list \<Rightarrow> dataframe" where
  "with_is_burst df flags =
     df\<lparr>df_columns := df_columns df @ [(''is_burst'', map PBool flags)]\<rparr>"

definition classifiers_append_is_burst :: "collaborators \<Rightarrow> bool" where
  "classifiers_append_is_burst C \<longleftrightarrow>
     (\<forall>df kwargs out.
        (detect_bursts_cycles C df kwargs = Inr out \<longrightarrow>
           (\<exists>flags. length flags = n_rows df \<and> out = with_is_burst df flags)) \<and>
        (detect_bursts_df_amp C df kwargs = Inr out \<longrightarrow>
           (\<exists>flags. length flags = n_rows df \<and> out = with_is_burst df flags)))"

section \<open>Two successive calls\<close>

text \<open>
  A caller that calls \<^verbatim>\<open>compute_features\<close> twice with the same argument objects: the
  second call runs in the store the first one leaves behind.
\<close>

definition repeated_call ::
  "collaborators \<Rightarrow> real list \<Rightarrow> pyval \<Rightarrow> pyval \<Rightarrow> string \<Rightarrow> string \<Rightarrow> kwargs_arg \<Rightarrow> pyval \<Rightarrow>
   bool \<Rightarrow> bool \<Rightarrow> store \<Rightarrow> outcome" where
  "repeated_call C sig fs f_range center_extrema burst_detection_method
     burst_detection_kwargs find_extrema_kwargs hilbert_increase_n return_samples \<sigma> =
     compute_features C sig fs f_range center_extrema burst_detection_method
       burst_detection_kwargs find_extrema_kwargs hilbert_increase_n return_samples
       (final_store
          (compute_features C sig fs f_range center_extrema burst_detection_method
             burst_detection_kwargs find_extrema_kwargs hilbert_increase_n return_samples \<sigma>))"

section \<open>A worked example\<close>

text \<open>
  Small stand-ins for the collaborators, used to run \<^verbatim>\<open>compute_features\<close> on concrete
  inputs: three cycles, two shape columns, consistency metrics or a burst fraction that
  depends on the thresholds it is given, and classifiers that reject a keyword they do
  not know, as a Python function without \<^verbatim>\<open>**kwargs\<close> does. The stand-in for the
  concatenation does what pandas does on frames with the same row labels, the only frames
  the examples hand it; pandas aligns frames whose labels differ, which the stand-in
  declines to do.
\<close>

definition ex_shape :: dataframe where
  "ex_shape = \<lparr>df_index = [0, 1, 2],
               df_columns = [(''period'', [PInt 10, PInt 10, PInt 12]),
                             (''volt_amp'', [PFloat 1, PFloat 2, PFloat 2])]\<rparr>"

definition ex_samples :: dataframe where
  "ex_samples = \<lparr>df_index = [0, 1, 2],
                 df_columns = [(''sample_peak'', [PInt 5, PInt 15, PInt 26])]\<rparr>"

definition ex_compute_shape_features ::
  "real list \<Rightarrow> pyval \<Rightarrow> pyval \<Rightarrow> string \<Rightarrow> pyval \<Rightarrow> bool \<Rightarrow> string + (dataframe \<times> dataframe)" where
  "ex_compute_shape_features sig fs f_range center_extrema find_extrema_kwargs hilbert_increase_n =
     (if length sig < 3 then Inl ''signal too short'' else Inr (ex_shape, ex_samples))"

definition ex_compute_burst_features ::
  "dataframe \<Rightarrow> dataframe \<Rightarrow> real list \<Rightarrow> dict option \<Rightarrow> string + dataframe" where
  "ex_compute_burst_features df_shape df_samples sig dual =
     (case dual of
        None \<Rightarrow>
          Inr \<lparr>df_index = df_index df_shape,
               df_columns = [(''amplitude_fraction'', map (\<lambda>i. PFloat 1) (df_index df_shape)),
                             (''monotonicity'', map (\<lambda>i. PFloat 1) (df_index df_shape))]\<rparr>
      | Some kw \<Rightarrow>
          Inr \<lparr>df_index = df_index df_shape,
               df_columns =
                 [(''burst_fraction'',
                   map (\<lambda>i. if kw ''amp_threshes'' = Some (PTuple [PInt 1, PInt 2])
                             then PFloat 1 else PFloat 0) (df_index df_shape))]\<rparr>)"

definition ex_is_burst :: "dataframe \<Rightarrow> dataframe" where
  "ex_is_burst df =
     df\<lparr>df_columns := df_columns df @ [(''is_burst'', map (\<lambda>i. PBool True) (df_index df))]\<rparr>"

definition ex_detect_bursts_cycles :: "dataframe \<Rightarrow> dict \<Rightarrow> string + dataframe" where
  "ex_detect_bursts_cycles df kwargs =
     (if kwargs ''amp_threshes'' \<noteq> None \<or> kwargs ''filter_kwargs'' \<noteq> None
      then Inl ''unexpected keyword argument'' else Inr (ex_is_burst df))"

definition ex_detect_bursts_df_amp :: "dataframe \<Rightarrow> dict \<Rightarrow> string + dataframe" where
  "ex_detect_bursts_df_amp df kwargs =
     (if kwargs ''amp_threshes'' \<noteq> None \<or> kwargs ''filter_kwargs'' \<noteq> None
      then Inl ''unexpected keyword argument'' else Inr (ex_is_burst df))"

definition ex_pd_concat :: "dataframe \<Rightarrow> dataframe \<Rightarrow> string + dataframe" where
  "ex_pd_concat a b =
     (if df_index a = df_index b then
        Inr \<lparr>df_index = df_index a, df_columns = df_columns a @ df_columns b\<rparr>
      else Inl ''row labels differ: outside this stand-in'')"

definition ex_collaborators :: collaborators where
  "ex_collaborators =
     \<lparr>compute_shape_features = ex_compute_shape_features,
      compute_burst_features = ex_compute_burst_features,
      pd_concat = ex_pd_concat,
      detect_bursts_cycles = ex_detect_bursts_cycles,
      detect_bursts_df_amp = ex_detect_bursts_df_amp\<rparr>"

text \<open>The same, with a burst-feature table that repeats the shape column \<^verbatim>\<open>period\<close>.\<close>

definition ex_clashing :: collaborators where
  "ex_clashing =
     ex_collaborators\<lparr>compute_burst_features :=
       (\<lambda>df_shape df_samples sig dual.
          Inr \<lparr>df_index = df_index df_shape,
               df_columns = [(''period'', map (\<lambda>i. PFloat 0) (df_index df_shape))]\<rparr>)\<rparr>"

definition ex_sig :: "real list" where
  "ex_sig = [0, 1, 0, -1, 0, 1, 0, -1]"

definition ex_f_range :: pyval where
  "ex_f_range = PTuple [PInt 8, PInt 12]"

text \<open>The tables of the example: the burst features of each mode and the merged tables.\<close>

definition ex_consistency :: dataframe where
  "ex_consistency = \<lparr>df_index = [0, 1, 2],
                     df_columns = [(''amplitude_fraction'', [PFloat 1, PFloat 1, PFloat 1]),
                                   (''monotonicity'', [PFloat 1, PFloat 1, PFloat 1])]\<rparr>"

definition ex_burst_fraction :: "real \<Rightarrow> dataframe" where
  "ex_burst_fraction x = \<lparr>df_index = [0, 1, 2],
                          df_columns = [(''burst_fraction'', [PFloat x, PFloat x, PFloat x])]\<rparr>"

definition ex_merged :: "dataframe \<Rightarrow> dataframe" where
  "ex_merged df_burst =
     \<lparr>df_index = [0, 1, 2], df_columns = df_columns ex_shape @ df_columns df_burst\<rparr>"

definition ex_period_again :: dataframe where
  "ex_period_again = \<lparr>df_index = [0, 1, 2],
                      df_columns = [(''period'', [PFloat 0, PFloat 0, PFloat 0])]\<rparr>"

text \<open>A store with one dictionary at address 0, and every other dictionary empty.\<close>

definition ex_store :: "dict \<Rightarrow> store" where
  "ex_store d = (\<lambda>r. Map.empty)(0 := d)"

section \<open>The parts of the function\<close>

lemma resolve_dual_threshold_store:
  "snd (resolve_dual_threshold fs f_range d) =
     d(''amp_threshes'' := None, ''filter_kwargs'' := None)"
  by (auto simp: resolve_dual_threshold_def dict_pop_def Let_def fun_eq_iff
      split: option.splits)

lemma resolve_dual_threshold_dual:
  "fst (resolve_dual_threshold fs f_range d) =
     [''fs'' \<mapsto> fs, ''f_range'' \<mapsto> f_range,
      ''amp_threshes'' \<mapsto>
        (case d ''amp_threshes'' of Some v \<Rightarrow> v | None \<Rightarrow> PTuple [PInt 1, PInt 2]),
      ''filter_kwargs'' \<mapsto> (case d ''filter_kwargs'' of Some v \<Rightarrow> v | None \<Rightarrow> PNone),
      ''n_cycles_min'' \<mapsto> (case d ''n_cycles_min'' of Some v \<Rightarrow> v | None \<Rightarrow> PInt 3)]"
  by (auto simp: resolve_dual_threshold_def dict_pop_def Let_def split: option.splits)

lemma dual_threshold_kwargs_other:
  "burst_detection_method \<noteq> ''amplitude'' \<Longrightarrow>
   dual_threshold_kwargs burst_detection_method fs f_range burst_detection_kwargs \<sigma> =
     (Inr None, \<sigma>)"
  by (simp add: dual_threshold_kwargs_def)

lemma dual_threshold_kwargs_nondict:
  "dual_threshold_kwargs ''amplitude'' fs f_range (NonDict v) \<sigma> = (Inl (pop_on_nondict v), \<sigma>)"
  by (simp add: dual_threshold_kwargs_def)

lemma dual_threshold_kwargs_dict:
  "dual_threshold_kwargs ''amplitude'' fs f_range (DictRef r) \<sigma> =
     (Inr (Some (fst (resolve_dual_threshold fs f_range (\<sigma> r)))),
      \<sigma>(r := (\<sigma> r)(''amp_threshes'' := None, ''filter_kwargs'' := None)))"
  by (simp add: dual_threshold_kwargs_def case_prod_unfold resolve_dual_threshold_store)

lemmas cf_defs =
  compute_features_def dual_threshold_kwargs_def detect_bursts_def unpack_kwargs_def Let_def

lemmas cf_simps =
  compute_features_def detect_bursts_def unpack_kwargs_def Let_def
  dual_threshold_kwargs_other dual_threshold_kwargs_nondict dual_threshold_kwargs_dict

lemmas ex_defs =
  ex_collaborators_def ex_compute_shape_features_def ex_compute_burst_features_def
  ex_detect_bursts_cycles_def ex_detect_bursts_df_amp_def ex_is_burst_def ex_pd_concat_def
  ex_sig_def ex_shape_def ex_samples_def ex_store_def ex_f_range_def ex_consistency_def
  ex_burst_fraction_def ex_merged_def ex_clashing_def ex_period_again_def

text \<open>
  Once the shape features, the threshold configuration, the burst features and the
  concatenation have succeeded, the call is the dispatch to the classifier on the merged
  table, with the keyword dictionary of lines 132-133.
\<close>

lemma compute_features_merged:
  assumes "compute_shape_features C sig fs f_range center_extrema find_extrema_kwargs
             hilbert_increase_n = Inr (df_shape, df_samples)"
    and "dual_threshold_kwargs burst_detection_method fs f_range burst_detection_kwargs \<sigma> =
           (Inr dual, \<sigma>')"
    and "compute_burst_features C df_shape df_samples sig dual = Inr df_burst"
    and "pd_concat C df_shape df_burst = Inr df"
  shows "compute_features C sig fs f_range center_extrema burst_detection_method
            burst_detection_kwargs find_extrema_kwargs hilbert_increase_n return_samples \<sigma> =
         (case detect_bursts C burst_detection_method df
                 (unpack_kwargs burst_detection_kwargs \<sigma>') of
            (Inl e, evs) \<Rightarrow>
              \<lparr>result = Inl e, final_store = \<sigma>',
               calls = [ShapeCall sig fs f_range center_extrema find_extrema_kwargs
                          hilbert_increase_n,
                        BurstCall df_shape df_samples sig dual,
                        ConcatCall df_shape df_burst] @ evs\<rparr>
          | (Inr out, evs) \<Rightarrow>
              \<lparr>result = Inr (if return_samples then FeaturesSamples out df_samples
                              else Features out),
               final_store = \<sigma>',
               calls = [ShapeCall sig fs f_range center_extrema find_extrema_kwargs
                          hilbert_increase_n,
                        BurstCall df_shape df_samples sig dual,
                        ConcatCall df_shape df_burst] @ evs\<rparr>)"
  unfolding compute_features_def Let_def using assms by simp

text \<open>
  In each mode, the calls made belong to that mode's path; outside the two modes no
  classifier is called.
\<close>

lemma calls_cycles_mode:
  "\<forall>ev \<in> set (calls (compute_features C sig fs f_range center_extrema ''cycles''
      burst_detection_kwargs find_extrema_kwargs hilbert_increase_n return_samples \<sigma>)).
     consistency_call ev"
  by (auto simp: cf_simps split: sum.splits prod.splits)

lemma calls_amplitude_mode:
  "\<forall>ev \<in> set (calls (compute_features C sig fs f_range center_extrema ''amplitude''
      burst_detection_kwargs find_extrema_kwargs hilbert_increase_n return_samples \<sigma>)).
     dual_threshold_call ev"
  by (cases burst_detection_kwargs) (auto simp: cf_simps split: sum.splits prod.splits)

lemma calls_other_mode:
  "burst_detection_method \<noteq> ''cycles'' \<Longrightarrow> burst_detection_method \<noteq> ''amplitude'' \<Longrightarrow>
   \<forall>ev \<in> set (calls (compute_features C sig fs f_range center_extrema burst_detection_method
      burst_detection_kwargs find_extrema_kwargs hilbert_increase_n return_samples \<sigma>)).
     \<not> classifier_call ev"
  by (auto simp: cf_simps split: sum.splits prod.splits)

text \<open>
  A run in which every collaborator is reached: in mode \<^verbatim>\<open>'cycles'\<close>, and in mode
  \<^verbatim>\<open>'amplitude'\<close> with a dictionary.
\<close>

lemma cycles_run:
  assumes "compute_shape_features C sig fs f_range center_extrema find_extrema_kwargs
             hilbert_increase_n = Inr (df_shape, df_samples)"
    and "compute_burst_features C df_shape df_samples sig None = Inr df_burst"
    and "pd_concat C df_shape df_burst = Inr df"
  shows "compute_features C sig fs f_range center_extrema ''cycles'' burst_detection_kwargs
           find_extrema_kwargs hilbert_increase_n return_samples \<sigma> =
         \<lparr>result =
            (case detect_bursts_cycles C df
                    (case burst_detection_kwargs of
                       DictRef r \<Rightarrow> \<sigma> r | NonDict v \<Rightarrow> Map.empty) of
               Inl msg \<Rightarrow> Inl (Raised msg)
             | Inr out \<Rightarrow>
                 Inr (if return_samples then FeaturesSamples out df_samples
                      else Features out)),
          final_store = \<sigma>,
          calls =
            [ShapeCall sig fs f_range center_extrema find_extrema_kwargs hilbert_increase_n,
             BurstCall df_shape df_samples sig None,
             ConcatCall df_shape df_burst,
             CyclesCall df
               (case burst_detection_kwargs of
                  DictRef r \<Rightarrow> \<sigma> r | NonDict v \<Rightarrow> Map.empty)]\<rparr>"
  using assms by (simp add: cf_simps split: sum.splits)

lemma amplitude_run:
  assumes "compute_shape_features C sig fs f_range center_extrema find_extrema_kwargs
             hilbert_increase_n = Inr (df_shape, df_samples)"
    and "compute_burst_features C df_shape df_samples sig
           (Some [''fs'' \<mapsto> fs, ''f_range'' \<mapsto> f_range,
                  ''amp_threshes'' \<mapsto>
                    (case \<sigma> r ''amp_threshes'' of
                       Some v \<Rightarrow> v | None \<Rightarrow> PTuple [PInt 1, PInt 2]),
                  ''filter_kwargs'' \<mapsto>
                    (case \<sigma> r ''filter_kwargs'' of Some v \<Rightarrow> v | None \<Rightarrow> PNone),
                  ''n_cycles_min'' \<mapsto>
                    (case \<sigma> r ''n_cycles_min'' of Some v \<Rightarrow> v | None \<Rightarrow> PInt 3)]) =
           Inr df_burst"
    and "pd_concat C df_shape df_burst = Inr df"
  shows "compute_features C sig fs f_range center_extrema ''amplitude'' (DictRef r)
           find_extrema_kwargs hilbert_increase_n return_samples \<sigma> =
         \<lparr>result =
            (case detect_bursts_df_amp C df
                    ((\<sigma> r)(''amp_threshes'' := None, ''filter_kwargs'' := None)) of
               Inl msg \<Rightarrow> Inl (Raised msg)
             | Inr out \<Rightarrow>
                 Inr (if return_samples then FeaturesSamples out df_samples
                      else Features out)),
          final_store = \<sigma>(r := (\<sigma> r)(''amp_threshes'' := None, ''filter_kwargs'' := None)),
          calls =
            [ShapeCall sig fs f_range center_extrema find_extrema_kwargs hilbert_increase_n,
             BurstCall df_shape df_samples sig
               (Some [''fs'' \<mapsto> fs, ''f_range'' \<mapsto> f_range,
                      ''amp_threshes'' \<mapsto>
                        (case \<sigma> r ''amp_threshes'' of
                           Some v \<Rightarrow> v | None \<Rightarrow> PTuple [PInt 1, PInt 2]),
                      ''filter_kwargs'' \<mapsto>
                        (case \<sigma> r ''filter_kwargs'' of Some v \<Rightarrow> v | None \<Rightarrow> PNone),
                      ''n_cycles_min'' \<mapsto>
                        (case \<sigma> r ''n_cycles_min'' of Some v \<Rightarrow> v | None \<Rightarrow> PInt 3)]),
             ConcatCall df_shape df_burst,
             DfAmpCall df ((\<sigma> r)(''amp_threshes'' := None, ''filter_kwargs'' := None))]\<rparr>"
  using assms
  by (simp add: compute_features_def detect_bursts_def unpack_kwargs_def Let_def
      dual_threshold_kwargs_dict resolve_dual_threshold_dual split: sum.splits)

lemma amplitude_nondict_run:
  assumes "compute_shape_features C sig fs f_range center_extrema find_extrema_kwargs
             hilbert_increase_n = Inr (df_shape, df_samples)"
  shows "compute_features C sig fs f_range center_extrema ''amplitude'' (NonDict v)
           find_extrema_kwargs hilbert_increase_n return_samples \<sigma> =
         \<lparr>result = Inl (pop_on_nondict v), final_store = \<sigma>,
          calls = [ShapeCall sig fs f_range center_extrema find_extrema_kwargs
                     hilbert_increase_n]\<rparr>"
  using assms by (simp add: cf_simps)

lemma is_burst_appended:
  assumes "classifiers_append_is_burst C"
  shows "detect_bursts_cycles C df kwargs = Inr out \<Longrightarrow>
           \<exists>flags. length flags = n_rows df \<and> out = with_is_burst df flags"
    and "detect_bursts_df_amp C df kwargs = Inr out \<Longrightarrow>
           \<exists>flags. length flags = n_rows df \<and> out = with_is_burst df flags"
  using assms unfolding classifiers_append_is_burst_def by blast+

lemma ex_appends_is_burst: "classifiers_append_is_burst ex_collaborators"
proof -
  have w: "\<exists>flags. length flags = n_rows df \<and> ex_is_burst df = with_is_burst df flags" for df
    by (rule exI [of _ "map (\<lambda>i. True) (df_index df)"])
       (simp add: ex_is_burst_def with_is_burst_def n_rows_def comp_def)
  show ?thesis
    unfolding classifiers_append_is_burst_def ex_collaborators_def
      ex_detect_bursts_cycles_def ex_detect_bursts_df_amp_def
    using w by (auto split: if_splits)
qed

section \<open>An unknown \<^verbatim>\<open>burst_detection_method\<close>\<close>

text \<open>
  With the unknown method \<^verbatim>\<open>'welch'\<close> the example call has computed the shape features,
  the burst features (of the consistency path) and the concatenation by the time it fails.
\<close>

theorem invalid_method_counterexample:
  "calls (compute_features ex_collaborators ex_sig (PInt 1000) ex_f_range ''peak'' ''welch''
      (NonDict NNone) PNone False True (ex_store Map.empty)) =
   [ShapeCall ex_sig (PInt 1000) ex_f_range ''peak'' PNone False,
    BurstCall ex_shape ex_samples ex_sig None,
    ConcatCall ex_shape ex_consistency]"
  by (simp add: cf_defs ex_defs)

text \<open>
  C1 (as the code has it). A call whose \<^verbatim>\<open>burst_detection_method\<close> is neither
  \<^verbatim>\<open>'cycles'\<close> nor \<^verbatim>\<open>'amplitude'\<close> never returns a table: it ends in an exception.
  The method is only examined at the dispatch of lines 136-142, so the shape features, the
  burst features (with \<^verbatim>\<open>dual_threshold_kwargs = None\<close>) and the concatenation come
  first; when these three succeed the call raises \<^verbatim>\<open>ValueError\<close>, having made exactly
  those three calls, no call to a classifier, and no change to the store.
\<close>

theorem invalid_method_fails_after_extraction:
  assumes "burst_detection_method \<noteq> ''cycles''" and "burst_detection_method \<noteq> ''amplitude''"
  shows "(\<exists>e. result (compute_features C sig fs f_range center_extrema burst_detection_method
            burst_detection_kwargs find_extrema_kwargs hilbert_increase_n return_samples \<sigma>) = Inl e) \<and>
         (\<forall>df_shape df_samples df_burst df.
            compute_shape_features C sig fs f_range center_extrema find_extrema_kwargs
              hilbert_increase_n = Inr (df_shape, df_samples) \<and>
            compute_burst_features C df_shape df_samples sig None = Inr df_burst \<and>
            pd_concat C df_shape df_burst = Inr df \<longrightarrow>
            compute_features C sig fs f_range center_extrema burst_detection_method
              burst_detection_kwargs find_extrema_kwargs hilbert_increase_n return_samples \<sigma> =
            \<lparr>result = Inl ValueError, final_store = \<sigma>,
             calls = [ShapeCall sig fs f_range center_extrema find_extrema_kwargs hilbert_increase_n,
                      BurstCall df_shape df_samples sig None,
                      ConcatCall df_shape df_burst]\<rparr>)"
  using assms by (auto simp: cf_defs split: sum.splits prod.splits)

theorem invalid_method_fails_after_extraction_witness:
  "''welch'' \<noteq> ''cycles'' \<and> ''welch'' \<noteq> ''amplitude'' \<and>
   compute_features ex_collaborators ex_sig (PInt 1000) ex_f_range ''peak'' ''welch''
      (NonDict NNone) PNone False True (ex_store Map.empty) =
   \<lparr>result = Inl ValueError, final_store = ex_store Map.empty,
    calls = [ShapeCall ex_sig (PInt 1000) ex_f_range ''peak'' PNone False,
             BurstCall ex_shape ex_samples ex_sig None,
             ConcatCall ex_shape ex_consistency]\<rparr>"
proof -
  have m: "''welch'' \<noteq> ''cycles''" "''welch'' \<noteq> ''amplitude''" by simp_all
  have s: "compute_shape_features ex_collaborators ex_sig (PInt 1000) ex_f_range ''peak'' PNone False
             = Inr (ex_shape, ex_samples)"
    by (simp add: ex_collaborators_def ex_compute_shape_features_def ex_sig_def)
  have b: "compute_burst_features ex_collaborators ex_shape ex_samples ex_sig None = Inr ex_consistency"
    by (simp add: ex_collaborators_def ex_compute_burst_features_def ex_shape_def ex_consistency_def)
  have c: "pd_concat ex_collaborators ex_shape ex_consistency = Inr (ex_merged ex_consistency)"
    by (simp add: ex_collaborators_def ex_pd_concat_def ex_shape_def ex_consistency_def ex_merged_def)
  from invalid_method_fails_after_extraction [OF m, of ex_collaborators ex_sig "PInt 1000" ex_f_range
      "''peak''" "NonDict NNone" PNone False True "ex_store Map.empty"] s b c
  show ?thesis using m by blast
qed

section \<open>Amplitude mode without \<^verbatim>\<open>burst_detection_kwargs\<close>\<close>

text \<open>
  C2. The claim has the threshold configuration resolved from the defaults even when
  \<^verbatim>\<open>burst_detection_kwargs\<close> is left at its default \<^verbatim>\<open>None\<close>. The code calls
  \<^verbatim>\<open>burst_detection_kwargs.pop\<close> at line 115 before anything replaces \<^verbatim>\<open>None\<close> by a
  dictionary (that happens at line 132, after the burst features): in amplitude mode with
  \<^verbatim>\<open>None\<close> the call raises \<^verbatim>\<open>AttributeError\<close> as soon as the shape features have
  been computed, the burst features are never computed, and nothing is returned.
\<close>

theorem amplitude_without_kwargs_raises:
  "compute_features C sig fs f_range center_extrema ''amplitude'' (NonDict NNone)
     find_extrema_kwargs hilbert_increase_n return_samples \<sigma> =
   (case compute_shape_features C sig fs f_range center_extrema find_extrema_kwargs
           hilbert_increase_n of
      Inl msg \<Rightarrow>
        \<lparr>result = Inl (Raised msg), final_store = \<sigma>,
         calls = [ShapeCall sig fs f_range center_extrema find_extrema_kwargs
                    hilbert_increase_n]\<rparr>
    | Inr tables \<Rightarrow>
        \<lparr>result = Inl AttributeError, final_store = \<sigma>,
         calls = [ShapeCall sig fs f_range center_extrema find_extrema_kwargs
                    hilbert_increase_n]\<rparr>)"
  by (simp add: compute_features_def dual_threshold_kwargs_def Let_def
      split: sum.splits prod.splits)

section \<open>The keywords that reach the dual-threshold classifier\<close>

text \<open>
  A caller's dictionary with \<^verbatim>\<open>amp_threshes\<close> and \<^verbatim>\<open>n_cycles_min\<close>: the classifier
  \<^verbatim>\<open>detect_bursts_df_amp\<close> is called with \<^verbatim>\<open>n_cycles_min\<close> still among its keywords.
\<close>

theorem n_cycles_min_kept_counterexample:
  "calls (compute_features ex_collaborators ex_sig (PInt 1000) ex_f_range ''peak'' ''amplitude''
      (DictRef 0) PNone False True
      (ex_store [''amp_threshes'' \<mapsto> PTuple [PInt 1, PInt 2], ''n_cycles_min'' \<mapsto> PInt 5])) =
   [ShapeCall ex_sig (PInt 1000) ex_f_range ''peak'' PNone False,
    BurstCall ex_shape ex_samples ex_sig
      (Some [''fs'' \<mapsto> PInt 1000, ''f_range'' \<mapsto> ex_f_range,
             ''amp_threshes'' \<mapsto> PTuple [PInt 1, PInt 2], ''filter_kwargs'' \<mapsto> PNone,
             ''n_cycles_min'' \<mapsto> PInt 5]),
    ConcatCall ex_shape (ex_burst_fraction 1),
    DfAmpCall (ex_merged (ex_burst_fraction 1)) [''n_cycles_min'' \<mapsto> PInt 5]]"
  by (simp add: cf_defs ex_defs resolve_dual_threshold_def dict_pop_def)

text \<open>
  C3 (as the code has it). In amplitude mode with a dictionary, the keywords passed to
  \<^verbatim>\<open>detect_bursts_df_amp\<close> are the caller's dictionary without \<^verbatim>\<open>amp_threshes\<close> and
  \<^verbatim>\<open>filter_kwargs\<close>, the two keys that are popped. \<^verbatim>\<open>n_cycles_min\<close> is read, not
  popped: when the caller gave it, the classifier receives it too.
\<close>

theorem classifier_kwargs_in_amplitude_mode:
  assumes "DfAmpCall df kwargs \<in> set (calls (compute_features C sig fs f_range center_extrema
             burst_detection_method (DictRef r) find_extrema_kwargs hilbert_increase_n
             return_samples \<sigma>))"
  shows "kwargs = (\<sigma> r)(''amp_threshes'' := None, ''filter_kwargs'' := None) \<and>
         kwargs ''amp_threshes'' = None \<and> kwargs ''filter_kwargs'' = None \<and>
         kwargs ''n_cycles_min'' = \<sigma> r ''n_cycles_min''"
proof -
  have k: "kwargs = snd (resolve_dual_threshold fs f_range (\<sigma> r))"
    using assms by (auto simp: cf_defs split: sum.splits prod.splits if_splits)
  show ?thesis unfolding k resolve_dual_threshold_store by simp
qed

theorem classifier_kwargs_in_amplitude_mode_witness:
  "DfAmpCall (ex_merged (ex_burst_fraction 1)) [''n_cycles_min'' \<mapsto> PInt 5] \<in>
     set (calls (compute_features ex_collaborators ex_sig (PInt 1000) ex_f_range ''peak''
       ''amplitude'' (DictRef 0) PNone False True
       (ex_store [''amp_threshes'' \<mapsto> PTuple [PInt 1, PInt 2], ''n_cycles_min'' \<mapsto> PInt 5]))) \<and>
   [''n_cycles_min'' \<mapsto> PInt 5] ''amp_threshes'' = None \<and>
   [''n_cycles_min'' \<mapsto> PInt 5] ''n_cycles_min'' =
     ex_store [''amp_threshes'' \<mapsto> PTuple [PInt 1, PInt 2], ''n_cycles_min'' \<mapsto> PInt 5] 0
       ''n_cycles_min''"
proof -
  have h: "DfAmpCall (ex_merged (ex_burst_fraction 1)) [''n_cycles_min'' \<mapsto> PInt 5] \<in>
     set (calls (compute_features ex_collaborators ex_sig (PInt 1000) ex_f_range ''peak''
       ''amplitude'' (DictRef 0) PNone False True
       (ex_store [''amp_threshes'' \<mapsto> PTuple [PInt 1, PInt 2], ''n_cycles_min'' \<mapsto> PInt 5])))"
    by (simp add: cf_defs ex_defs resolve_dual_threshold_def dict_pop_def)
  from classifier_kwargs_in_amplitude_mode [OF h] h show ?thesis by simp
qed

section \<open>Concatenating tables that share a column name\<close>

text \<open>
  A burst-feature table with a column \<^verbatim>\<open>period\<close>, which the shape table has too: the
  call succeeds, and the table it returns has two columns of that name.
\<close>

theorem colliding_columns_counterexample:
  "compute_shape_features ex_clashing ex_sig (PInt 1000) ex_f_range ''peak'' PNone False =
     Inr (ex_shape, ex_samples) \<and>
   compute_burst_features ex_clashing ex_shape ex_samples ex_sig None = Inr ex_period_again \<and>
   ''period'' \<in> set (column_names ex_shape) \<inter> set (column_names ex_period_again) \<and>
   result (compute_features ex_clashing ex_sig (PInt 1000) ex_f_range ''peak'' ''cycles''
      (NonDict NNone) PNone False False (ex_store Map.empty)) =
     Inr (Features (ex_is_burst (ex_merged ex_period_again))) \<and>
   column_names (ex_is_burst (ex_merged ex_period_again)) =
     [''period'', ''volt_amp'', ''period'', ''is_burst'']"
  by (simp add: cf_simps ex_defs column_names_def)

text \<open>
  C4 (as the code has it). \<^verbatim>\<open>compute_features\<close> compares no column names, and
  \<^verbatim>\<open>pd.concat\<close> is called without \<^verbatim>\<open>verify_integrity\<close>: when the shape table and the
  burst-feature table share a column name and carry the same row labels, the
  concatenation succeeds, the merged table holds the columns of both (so its column names
  repeat), and the call goes on to the classifier with that table; what it returns is
  what the classifier makes of it.
\<close>

theorem concat_keeps_colliding_columns:
  assumes "concat_of_aligned_frames C"
    and "compute_shape_features C sig fs f_range center_extrema find_extrema_kwargs
           hilbert_increase_n = Inr (df_shape, df_samples)"
    and "dual_threshold_kwargs burst_detection_method fs f_range burst_detection_kwargs \<sigma> =
           (Inr dual, \<sigma>')"
    and "compute_burst_features C df_shape df_samples sig dual = Inr df_burst"
    and "df_index df_burst = df_index df_shape"
    and "set (column_names df_shape) \<inter> set (column_names df_burst) \<noteq> {}"
  shows "pd_concat C df_shape df_burst =
           Inr \<lparr>df_index = df_index df_shape,
                df_columns = df_columns df_shape @ df_columns df_burst\<rparr> \<and>
         \<not> distinct (column_names \<lparr>df_index = df_index df_shape,
                df_columns = df_columns df_shape @ df_columns df_burst\<rparr>) \<and>
         calls (compute_features C sig fs f_range center_extrema burst_detection_method
            burst_detection_kwargs find_extrema_kwargs hilbert_increase_n return_samples \<sigma>) =
           [ShapeCall sig fs f_range center_extrema find_extrema_kwargs hilbert_increase_n,
            BurstCall df_shape df_samples sig dual,
            ConcatCall df_shape df_burst] @
           snd (detect_bursts C burst_detection_method
                  \<lparr>df_index = df_index df_shape,
                   df_columns = df_columns df_shape @ df_columns df_burst\<rparr>
                  (unpack_kwargs burst_detection_kwargs \<sigma>')) \<and>
         result (compute_features C sig fs f_range center_extrema burst_detection_method
            burst_detection_kwargs find_extrema_kwargs hilbert_increase_n return_samples \<sigma>) =
           map_sum id (\<lambda>df. if return_samples then FeaturesSamples df df_samples else Features df)
             (fst (detect_bursts C burst_detection_method
                  \<lparr>df_index = df_index df_shape,
                   df_columns = df_columns df_shape @ df_columns df_burst\<rparr>
                  (unpack_kwargs burst_detection_kwargs \<sigma>')))"
proof -
  let ?m = "\<lparr>df_index = df_index df_shape,
             df_columns = df_columns df_shape @ df_columns df_burst\<rparr>"
  have c: "pd_concat C df_shape df_burst = Inr ?m"
    using assms(1,5) by (simp add: concat_of_aligned_frames_def)
  have d: "\<not> distinct (column_names ?m)"
    using assms(6) by (auto simp: column_names_def)
  note r = compute_features_merged [OF assms(2,3,4) c]
  show ?thesis
    unfolding r using c d by (simp split: prod.splits sum.splits)
qed

theorem concat_keeps_colliding_columns_witness:
  "result (compute_features ex_clashing ex_sig (PInt 1000) ex_f_range ''peak'' ''cycles''
      (NonDict NNone) PNone False False (ex_store Map.empty)) =
     Inr (Features (ex_is_burst (ex_merged ex_period_again))) \<and>
   \<not> distinct (column_names (ex_merged ex_period_again))"
proof -
  have 1: "concat_of_aligned_frames ex_clashing"
    by (simp add: concat_of_aligned_frames_def ex_clashing_def ex_collaborators_def
        ex_pd_concat_def)
  have 2: "compute_shape_features ex_clashing ex_sig (PInt 1000) ex_f_range ''peak'' PNone False =
             Inr (ex_shape, ex_samples)"
    by (simp add: ex_clashing_def ex_collaborators_def ex_compute_shape_features_def ex_sig_def)
  have 3: "dual_threshold_kwargs ''cycles'' (PInt 1000) ex_f_range (NonDict NNone)
             (ex_store Map.empty) = (Inr None, ex_store Map.empty)"
    by (simp add: dual_threshold_kwargs_def)
  have 4: "compute_burst_features ex_clashing ex_shape ex_samples ex_sig None = Inr ex_period_again"
    by (simp add: ex_clashing_def ex_collaborators_def ex_period_again_def ex_shape_def)
  have 5: "df_index ex_period_again = df_index ex_shape"
    by (simp add: ex_period_again_def ex_shape_def)
  have 6: "set (column_names ex_shape) \<inter> set (column_names ex_period_again) \<noteq> {}"
    by (simp add: column_names_def ex_period_again_def ex_shape_def)
  have m: "\<lparr>df_index = df_index ex_shape,
            df_columns = df_columns ex_shape @ df_columns ex_period_again\<rparr> =
           ex_merged ex_period_again"
    by (simp add: ex_merged_def ex_shape_def)
  have k: "detect_bursts ex_clashing ''cycles'' (ex_merged ex_period_again)
             (unpack_kwargs (NonDict NNone) (ex_store Map.empty)) =
           (Inr (ex_is_burst (ex_merged ex_period_again)),
            [CyclesCall (ex_merged ex_period_again) Map.empty])"
    by (simp add: detect_bursts_def unpack_kwargs_def ex_clashing_def ex_collaborators_def
        ex_detect_bursts_cycles_def)
  from concat_keeps_colliding_columns [OF 1 2 3 4 5 6, of False]
  show ?thesis unfolding m k by simp
qed

section \<open>What the call changes\<close>

text \<open>
  After an amplitude-mode call, the caller's dictionary has lost its \<^verbatim>\<open>amp_threshes\<close>.
\<close>

theorem kwargs_mutated_counterexample:
  "ex_store [''amp_threshes'' \<mapsto> PTuple [PInt 2, PInt 3]] 0 ''amp_threshes'' =
     Some (PTuple [PInt 2, PInt 3]) \<and>
   final_store (compute_features ex_collaborators ex_sig (PInt 1000) ex_f_range ''peak''
      ''amplitude'' (DictRef 0) PNone False True
      (ex_store [''amp_threshes'' \<mapsto> PTuple [PInt 2, PInt 3]])) 0 ''amp_threshes'' = None"
  by (simp add: cf_defs ex_defs resolve_dual_threshold_def dict_pop_def)

text \<open>
  C5 (as the code has it). The only object the call changes is the dictionary passed as
  \<^verbatim>\<open>burst_detection_kwargs\<close>, and only in amplitude mode once the shape features have
  been computed: the keys \<^verbatim>\<open>amp_threshes\<close> and \<^verbatim>\<open>filter_kwargs\<close> are removed from it
  (lines 115-116), every other key keeps its value. In every other case the store after
  the call is the store before it.
\<close>

theorem store_after_call:
  "final_store (compute_features C sig fs f_range center_extrema burst_detection_method
      burst_detection_kwargs find_extrema_kwargs hilbert_increase_n return_samples \<sigma>) =
   (case burst_detection_kwargs of
      DictRef r \<Rightarrow>
        if burst_detection_method = ''amplitude'' \<and>
           \<not> isl (compute_shape_features C sig fs f_range center_extrema
                    find_extrema_kwargs hilbert_increase_n)
        then \<sigma>(r := (\<sigma> r)(''amp_threshes'' := None, ''filter_kwargs'' := None))
        else \<sigma>
    | NonDict v \<Rightarrow> \<sigma>)"
  by (cases "burst_detection_method = ''amplitude''")
     (auto simp: cf_simps split: sum.splits prod.splits kwargs_arg.splits)

theorem store_after_call_witness:
  "final_store (compute_features ex_collaborators ex_sig (PInt 1000) ex_f_range ''peak''
      ''amplitude'' (DictRef 0) PNone False True
      (ex_store [''amp_threshes'' \<mapsto> PTuple [PInt 2, PInt 3], ''n_cycles_min'' \<mapsto> PInt 5])) =
   ex_store [''n_cycles_min'' \<mapsto> PInt 5]"
  using store_after_call [of ex_collaborators ex_sig "PInt 1000" ex_f_range "''peak''"
      "''amplitude''" "DictRef 0" PNone False True
      "ex_store [''amp_threshes'' \<mapsto> PTuple [PInt 2, PInt 3], ''n_cycles_min'' \<mapsto> PInt 5]"]
  by (auto simp: ex_collaborators_def ex_compute_shape_features_def ex_sig_def ex_store_def fun_eq_iff)

section \<open>The flag \<^verbatim>\<open>return_samples\<close>\<close>

text \<open>
  C6. With the flag set the call returns the pair of the feature table and the
  cyclepoints, the table \<^verbatim>\<open>df_samples\<close> that \<^verbatim>\<open>compute_shape_features\<close> returned; with the
  flag unset it returns the feature table alone, and it is the same table; a call that
  fails, fails with the same exception either way. The flag changes neither the calls
  made nor the store left behind.
\<close>

theorem return_samples_changes_structure_only:
  "(case result (compute_features C sig fs f_range center_extrema burst_detection_method
            burst_detection_kwargs find_extrema_kwargs hilbert_increase_n True \<sigma>) of
      Inl e \<Rightarrow>
        result (compute_features C sig fs f_range center_extrema burst_detection_method
            burst_detection_kwargs find_extrema_kwargs hilbert_increase_n False \<sigma>) = Inl e
    | Inr r \<Rightarrow>
        (\<exists>df df_shape df_samples.
            compute_shape_features C sig fs f_range center_extrema find_extrema_kwargs
              hilbert_increase_n = Inr (df_shape, df_samples) \<and>
            r = FeaturesSamples df df_samples \<and>
            result (compute_features C sig fs f_range center_extrema burst_detection_method
              burst_detection_kwargs find_extrema_kwargs hilbert_increase_n False \<sigma>) =
              Inr (Features df))) \<and>
   final_store (compute_features C sig fs f_range center_extrema burst_detection_method
            burst_detection_kwargs find_extrema_kwargs hilbert_increase_n True \<sigma>) =
   final_store (compute_features C sig fs f_range center_extrema burst_detection_method
            burst_detection_kwargs find_extrema_kwargs hilbert_increase_n False \<sigma>) \<and>
   calls (compute_features C sig fs f_range center_extrema burst_detection_method
            burst_detection_kwargs find_extrema_kwargs hilbert_increase_n True \<sigma>) =
   calls (compute_features C sig fs f_range center_extrema burst_detection_method
            burst_detection_kwargs find_extrema_kwargs hilbert_increase_n False \<sigma>)"
  by (simp add: compute_features_def Let_def split: sum.splits prod.splits)

theorem return_samples_changes_structure_only_witness:
  "compute_shape_features ex_collaborators ex_sig (PInt 1000) ex_f_range ''peak'' PNone False =
     Inr (ex_shape, ex_samples) \<and>
   result (compute_features ex_collaborators ex_sig (PInt 1000) ex_f_range ''peak'' ''cycles''
      (NonDict NNone) PNone False True (ex_store Map.empty)) =
     Inr (FeaturesSamples (ex_is_burst (ex_merged ex_consistency)) ex_samples) \<and>
   result (compute_features ex_collaborators ex_sig (PInt 1000) ex_f_range ''peak'' ''cycles''
      (NonDict NNone) PNone False False (ex_store Map.empty)) =
     Inr (Features (ex_is_burst (ex_merged ex_consistency)))"
proof -
  have s: "compute_shape_features ex_collaborators ex_sig (PInt 1000) ex_f_range ''peak'' PNone
      False = Inr (ex_shape, ex_samples)"
    by (simp add: ex_collaborators_def ex_compute_shape_features_def ex_sig_def)
  have t: "result (compute_features ex_collaborators ex_sig (PInt 1000) ex_f_range ''peak''
      ''cycles'' (NonDict NNone) PNone False True (ex_store Map.empty)) =
     Inr (FeaturesSamples (ex_is_burst (ex_merged ex_consistency)) ex_samples)"
    by (simp add: cf_simps ex_defs)
  from return_samples_changes_structure_only [of ex_collaborators ex_sig "PInt 1000" ex_f_range
      "''peak''" "''cycles''" "NonDict NNone" PNone False "ex_store Map.empty"] s t
  show ?thesis by simp
qed

section \<open>Rows of the three tables\<close>

text \<open>
  C7. Let the burst-feature table carry the row labels of the shape table it is computed
  from, let the classifiers keep the row labels of the table they are given, and let the
  concatenation of two tables with the same row labels be that of pandas. Then whenever the call returns, the shape table, the
  burst-feature table and the returned feature table carry the same row labels in the
  same order: they have equally many rows, and row \<open>i\<close> of each is the same cycle.
\<close>

theorem tables_share_rows:
  assumes "burst_rows_per_cycle C" and "classifiers_keep_rows C"
    and "concat_of_aligned_frames C"
    and "result (compute_features C sig fs f_range center_extrema burst_detection_method
            burst_detection_kwargs find_extrema_kwargs hilbert_increase_n return_samples \<sigma>) = Inr r"
  shows "\<exists>df_shape df_samples dual df_burst.
           compute_shape_features C sig fs f_range center_extrema find_extrema_kwargs
             hilbert_increase_n = Inr (df_shape, df_samples) \<and>
           compute_burst_features C df_shape df_samples sig dual = Inr df_burst \<and>
           calls (compute_features C sig fs f_range center_extrema burst_detection_method
             burst_detection_kwargs find_extrema_kwargs hilbert_increase_n return_samples \<sigma>) ! 1 =
             BurstCall df_shape df_samples sig dual \<and>
           df_index df_burst = df_index df_shape \<and>
           df_index (features_of r) = df_index df_shape \<and>
           n_rows df_shape = n_rows df_burst \<and> n_rows df_burst = n_rows (features_of r)"
proof -
  from assms(4) obtain df_shape df_samples where
    s: "compute_shape_features C sig fs f_range center_extrema find_extrema_kwargs
          hilbert_increase_n = Inr (df_shape, df_samples)"
    by (auto simp: compute_features_def Let_def split: sum.splits prod.splits)
  from assms(4) s obtain dual \<sigma>' where
    d: "dual_threshold_kwargs burst_detection_method fs f_range burst_detection_kwargs \<sigma> =
          (Inr dual, \<sigma>')"
    by (auto simp: compute_features_def Let_def split: sum.splits prod.splits)
  from assms(4) s d obtain df_burst where
    b: "compute_burst_features C df_shape df_samples sig dual = Inr df_burst"
    by (auto simp: compute_features_def Let_def split: sum.splits prod.splits)
  from assms(1) b have ib: "df_index df_burst = df_index df_shape"
    by (auto simp: burst_rows_per_cycle_def)
  let ?m = "\<lparr>df_index = df_index df_shape,
             df_columns = df_columns df_shape @ df_columns df_burst\<rparr>"
  have c: "pd_concat C df_shape df_burst = Inr ?m"
    using assms(3) ib by (simp add: concat_of_aligned_frames_def)
  from assms(4) s d b c obtain df evs where
    k: "detect_bursts C burst_detection_method ?m (unpack_kwargs burst_detection_kwargs \<sigma>') =
          (Inr df, evs)"
    and r: "features_of r = df"
    by (auto simp: compute_features_def Let_def split: sum.splits prod.splits if_splits)
  from k assms(2) have "df_index df = df_index ?m"
    by (auto simp: detect_bursts_def classifiers_keep_rows_def split: if_splits sum.splits)
  then have ir: "df_index (features_of r) = df_index df_shape"
    using r by simp
  have e: "calls (compute_features C sig fs f_range center_extrema burst_detection_method
             burst_detection_kwargs find_extrema_kwargs hilbert_increase_n return_samples \<sigma>) ! 1 =
             BurstCall df_shape df_samples sig dual"
    using s d b c k by (simp add: compute_features_def Let_def)
  show ?thesis
    using s b e ib ir by (auto simp: n_rows_def)
qed

theorem tables_share_rows_witness:
  "burst_rows_per_cycle ex_collaborators \<and> classifiers_keep_rows ex_collaborators \<and>
   concat_of_aligned_frames ex_collaborators \<and>
   result (compute_features ex_collaborators ex_sig (PInt 1000) ex_f_range ''peak'' ''cycles''
      (NonDict NNone) PNone False False (ex_store Map.empty)) =
     Inr (Features (ex_is_burst (ex_merged ex_consistency))) \<and>
   df_index (ex_is_burst (ex_merged ex_consistency)) = df_index ex_shape \<and>
   n_rows (ex_is_burst (ex_merged ex_consistency)) = 3"
proof -
  have 1: "burst_rows_per_cycle ex_collaborators"
    by (auto simp: burst_rows_per_cycle_def ex_collaborators_def ex_compute_burst_features_def
        split: option.splits)
  have 2: "classifiers_keep_rows ex_collaborators"
    by (auto simp: classifiers_keep_rows_def ex_collaborators_def ex_detect_bursts_cycles_def
        ex_detect_bursts_df_amp_def ex_is_burst_def split: if_splits)
  have 3: "concat_of_aligned_frames ex_collaborators"
    by (simp add: concat_of_aligned_frames_def ex_collaborators_def ex_pd_concat_def)
  have 4: "result (compute_features ex_collaborators ex_sig (PInt 1000) ex_f_range ''peak''
      ''cycles'' (NonDict NNone) PNone False False (ex_store Map.empty)) =
     Inr (Features (ex_is_burst (ex_merged ex_consistency)))"
    by (simp add: cf_simps ex_defs)
  have 5: "compute_shape_features ex_collaborators ex_sig (PInt 1000) ex_f_range ''peak'' PNone
      False = Inr (ex_shape, ex_samples)"
    by (simp add: ex_collaborators_def ex_compute_shape_features_def ex_sig_def)
  from tables_share_rows [OF 1 2 3 4] 5
  have "df_index (ex_is_burst (ex_merged ex_consistency)) = df_index ex_shape"
    by auto
  moreover have "n_rows (ex_is_burst (ex_merged ex_consistency)) = 3"
    by (simp add: n_rows_def ex_is_burst_def ex_merged_def)
  ultimately show ?thesis using 1 2 3 4 by blast
qed

section \<open>Determinism and repeated calls\<close>

text \<open>
  An amplitude-mode call with the thresholds \<^verbatim>\<open>(2, 3)\<close> in the caller's dictionary, and
  the same call again with the same dictionary object: the first call has removed
  \<^verbatim>\<open>amp_threshes\<close>, the second runs with the default \<^verbatim>\<open>(1, 2)\<close>, and the two tables
  differ.
\<close>

theorem repeated_call_counterexample:
  "result (compute_features ex_collaborators ex_sig (PInt 1000) ex_f_range ''peak''
      ''amplitude'' (DictRef 0) PNone False False
      (ex_store [''amp_threshes'' \<mapsto> PTuple [PInt 2, PInt 3]])) =
     Inr (Features (ex_is_burst (ex_merged (ex_burst_fraction 0)))) \<and>
   result (repeated_call ex_collaborators ex_sig (PInt 1000) ex_f_range ''peak''
      ''amplitude'' (DictRef 0) PNone False False
      (ex_store [''amp_threshes'' \<mapsto> PTuple [PInt 2, PInt 3]])) =
     Inr (Features (ex_is_burst (ex_merged (ex_burst_fraction 1)))) \<and>
   ex_is_burst (ex_merged (ex_burst_fraction 0)) \<noteq> ex_is_burst (ex_merged (ex_burst_fraction 1))"
  by (simp add: repeated_call_def cf_defs ex_defs resolve_dual_threshold_def dict_pop_def)

text \<open>
  C8 (as the code has it). Two calls with the same arguments for which the dictionary
  passed as \<^verbatim>\<open>burst_detection_kwargs\<close> (when it is one) holds the same contents at the
  time of each call return the same value or raise the same exception, and make the same
  calls, whatever else differs in the store. A call repeated with the same argument
  objects is the first call over again when the mode is not \<^verbatim>\<open>'amplitude'\<close>, when
  \<^verbatim>\<open>burst_detection_kwargs\<close> is not a dictionary, or when the dictionary holds neither
  \<^verbatim>\<open>amp_threshes\<close> nor \<^verbatim>\<open>filter_kwargs\<close>. In amplitude mode with a dictionary, once the
  shape features are computed, the repeated call is the call on that dictionary without
  the two keys: its burst features are computed with the defaults
  \<^verbatim>\<open>amp_threshes = (1, 2)\<close> and \<^verbatim>\<open>filter_kwargs = None\<close>, whatever the caller had given.
\<close>

theorem repeated_call_outcome:
  "((\<forall>r. burst_detection_kwargs = DictRef r \<longrightarrow> \<sigma>1 r = \<sigma>2 r) \<longrightarrow>
      result (compute_features C sig fs f_range center_extrema burst_detection_method
        burst_detection_kwargs find_extrema_kwargs hilbert_increase_n return_samples \<sigma>1) =
      result (compute_features C sig fs f_range center_extrema burst_detection_method
        burst_detection_kwargs find_extrema_kwargs hilbert_increase_n return_samples \<sigma>2) \<and>
      calls (compute_features C sig fs f_range center_extrema burst_detection_method
        burst_detection_kwargs find_extrema_kwargs hilbert_increase_n return_samples \<sigma>1) =
      calls (compute_features C sig fs f_range center_extrema burst_detection_method
        burst_detection_kwargs find_extrema_kwargs hilbert_increase_n return_samples \<sigma>2)) \<and>
   (burst_detection_method \<noteq> ''amplitude'' \<or>
    (\<exists>v. burst_detection_kwargs = NonDict v) \<or>
    (\<exists>r. burst_detection_kwargs = DictRef r \<and>
         \<sigma> r ''amp_threshes'' = None \<and> \<sigma> r ''filter_kwargs'' = None) \<longrightarrow>
      repeated_call C sig fs f_range center_extrema burst_detection_method
        burst_detection_kwargs find_extrema_kwargs hilbert_increase_n return_samples \<sigma> =
      compute_features C sig fs f_range center_extrema burst_detection_method
        burst_detection_kwargs find_extrema_kwargs hilbert_increase_n return_samples \<sigma>) \<and>
   (\<forall>r df_shape df_samples.
      burst_detection_method = ''amplitude'' \<and> burst_detection_kwargs = DictRef r \<and>
      compute_shape_features C sig fs f_range center_extrema find_extrema_kwargs
        hilbert_increase_n = Inr (df_shape, df_samples) \<longrightarrow>
      repeated_call C sig fs f_range center_extrema burst_detection_method
        burst_detection_kwargs find_extrema_kwargs hilbert_increase_n return_samples \<sigma> =
      compute_features C sig fs f_range center_extrema burst_detection_method
        burst_detection_kwargs find_extrema_kwargs hilbert_increase_n return_samples
        (\<sigma>(r := (\<sigma> r)(''amp_threshes'' := None, ''filter_kwargs'' := None))) \<and>
      calls (repeated_call C sig fs f_range center_extrema burst_detection_method
        burst_detection_kwargs find_extrema_kwargs hilbert_increase_n return_samples \<sigma>) ! 1 =
      BurstCall df_shape df_samples sig
        (Some [''fs'' \<mapsto> fs, ''f_range'' \<mapsto> f_range,
               ''amp_threshes'' \<mapsto> PTuple [PInt 1, PInt 2],
               ''filter_kwargs'' \<mapsto> PNone,
               ''n_cycles_min'' \<mapsto>
                 (case \<sigma> r ''n_cycles_min'' of Some v \<Rightarrow> v | None \<Rightarrow> PInt 3)]))"
proof (intro conjI impI allI)
  assume h: "\<forall>r. burst_detection_kwargs = DictRef r \<longrightarrow> \<sigma>1 r = \<sigma>2 r"
  have "result (compute_features C sig fs f_range center_extrema burst_detection_method
        burst_detection_kwargs find_extrema_kwargs hilbert_increase_n return_samples \<sigma>1) =
      result (compute_features C sig fs f_range center_extrema burst_detection_method
        burst_detection_kwargs find_extrema_kwargs hilbert_increase_n return_samples \<sigma>2) \<and>
      calls (compute_features C sig fs f_range center_extrema burst_detection_method
        burst_detection_kwargs find_extrema_kwargs hilbert_increase_n return_samples \<sigma>1) =
      calls (compute_features C sig fs f_range center_extrema burst_detection_method
        burst_detection_kwargs find_extrema_kwargs hilbert_increase_n return_samples \<sigma>2)"
  proof (cases burst_detection_kwargs)
    case (DictRef r)
    with h have "\<sigma>1 r = \<sigma>2 r" by simp
    with DictRef show ?thesis
      by (cases "burst_detection_method = ''amplitude''")
         (simp_all add: cf_simps split: sum.splits prod.splits)
  next
    case (NonDict v)
    then show ?thesis
      by (cases "burst_detection_method = ''amplitude''")
         (simp_all add: cf_simps split: sum.splits prod.splits)
  qed
  then show
    "result (compute_features C sig fs f_range center_extrema burst_detection_method
        burst_detection_kwargs find_extrema_kwargs hilbert_increase_n return_samples \<sigma>1) =
      result (compute_features C sig fs f_range center_extrema burst_detection_method
        burst_detection_kwargs find_extrema_kwargs hilbert_increase_n return_samples \<sigma>2)"
    and
    "calls (compute_features C sig fs f_range center_extrema burst_detection_method
        burst_detection_kwargs find_extrema_kwargs hilbert_increase_n return_samples \<sigma>1) =
      calls (compute_features C sig fs f_range center_extrema burst_detection_method
        burst_detection_kwargs find_extrema_kwargs hilbert_increase_n return_samples \<sigma>2)"
    by simp_all
next
  assume h: "burst_detection_method \<noteq> ''amplitude'' \<or>
    (\<exists>v. burst_detection_kwargs = NonDict v) \<or>
    (\<exists>r. burst_detection_kwargs = DictRef r \<and>
         \<sigma> r ''amp_threshes'' = None \<and> \<sigma> r ''filter_kwargs'' = None)"
  have "final_store (compute_features C sig fs f_range center_extrema burst_detection_method
        burst_detection_kwargs find_extrema_kwargs hilbert_increase_n return_samples \<sigma>) = \<sigma>"
  proof (cases "burst_detection_method = ''amplitude''")
    case False
    then show ?thesis
      by (simp add: cf_simps split: sum.splits prod.splits)
  next
    case True
    show ?thesis
    proof (cases burst_detection_kwargs)
      case (NonDict v)
      with True show ?thesis
        by (simp add: cf_simps split: sum.splits prod.splits)
    next
      case (DictRef r)
      with True h have n: "\<sigma> r ''amp_threshes'' = None" "\<sigma> r ''filter_kwargs'' = None"
        by simp_all
      then have "(\<sigma> r)(''amp_threshes'' := None, ''filter_kwargs'' := None) = \<sigma> r"
        by (auto simp: fun_eq_iff)
      then have "\<sigma>(r := (\<sigma> r)(''amp_threshes'' := None, ''filter_kwargs'' := None)) = \<sigma>"
        by simp
      with True DictRef show ?thesis
        by (simp add: cf_simps split: sum.splits prod.splits)
    qed
  qed
  then show "repeated_call C sig fs f_range center_extrema burst_detection_method
        burst_detection_kwargs find_extrema_kwargs hilbert_increase_n return_samples \<sigma> =
      compute_features C sig fs f_range center_extrema burst_detection_method
        burst_detection_kwargs find_extrema_kwargs hilbert_increase_n return_samples \<sigma>"
    by (simp add: repeated_call_def)
next
  fix r df_shape df_samples
  assume h: "burst_detection_method = ''amplitude'' \<and> burst_detection_kwargs = DictRef r \<and>
      compute_shape_features C sig fs f_range center_extrema find_extrema_kwargs
        hilbert_increase_n = Inr (df_shape, df_samples)"
  let ?\<sigma>' = "\<sigma>(r := (\<sigma> r)(''amp_threshes'' := None, ''filter_kwargs'' := None))"
  from h have f: "final_store (compute_features C sig fs f_range center_extrema
        burst_detection_method burst_detection_kwargs find_extrema_kwargs hilbert_increase_n
        return_samples \<sigma>) = ?\<sigma>'"
    by (simp add: cf_simps split: sum.splits prod.splits)
  then show e: "repeated_call C sig fs f_range center_extrema burst_detection_method
        burst_detection_kwargs find_extrema_kwargs hilbert_increase_n return_samples \<sigma> =
      compute_features C sig fs f_range center_extrema burst_detection_method
        burst_detection_kwargs find_extrema_kwargs hilbert_increase_n return_samples ?\<sigma>'"
    by (simp add: repeated_call_def)
  from h show "calls (repeated_call C sig fs f_range center_extrema burst_detection_method
        burst_detection_kwargs find_extrema_kwargs hilbert_increase_n return_samples \<sigma>) ! 1 =
      BurstCall df_shape df_samples sig
        (Some [''fs'' \<mapsto> fs, ''f_range'' \<mapsto> f_range,
               ''amp_threshes'' \<mapsto> PTuple [PInt 1, PInt 2],
               ''filter_kwargs'' \<mapsto> PNone,
               ''n_cycles_min'' \<mapsto>
                 (case \<sigma> r ''n_cycles_min'' of Some v \<Rightarrow> v | None \<Rightarrow> PInt 3)])"
    unfolding e
    by (simp add: compute_features_def detect_bursts_def unpack_kwargs_def Let_def
        dual_threshold_kwargs_dict resolve_dual_threshold_dual split: sum.splits prod.splits)
qed

theorem repeated_call_outcome_witness:
  "ex_store [''n_cycles_min'' \<mapsto> PInt 5] 0 =
     ((ex_store [''n_cycles_min'' \<mapsto> PInt 5])(7 := [''amp_threshes'' \<mapsto> PNone])) 0 \<and>
   result (compute_features ex_collaborators ex_sig (PInt 1000) ex_f_range ''peak'' ''amplitude''
      (DictRef 0) PNone False False (ex_store [''n_cycles_min'' \<mapsto> PInt 5])) =
   result (compute_features ex_collaborators ex_sig (PInt 1000) ex_f_range ''peak'' ''amplitude''
      (DictRef 0) PNone False False
      ((ex_store [''n_cycles_min'' \<mapsto> PInt 5])(7 := [''amp_threshes'' \<mapsto> PNone]))) \<and>
   repeated_call ex_collaborators ex_sig (PInt 1000) ex_f_range ''peak'' ''cycles''
      (DictRef 0) PNone False False (ex_store [''n_cycles_min'' \<mapsto> PInt 5]) =
   compute_features ex_collaborators ex_sig (PInt 1000) ex_f_range ''peak'' ''cycles''
      (DictRef 0) PNone False False (ex_store [''n_cycles_min'' \<mapsto> PInt 5]) \<and>
   calls (repeated_call ex_collaborators ex_sig (PInt 1000) ex_f_range ''peak'' ''amplitude''
      (DictRef 0) PNone False False
      (ex_store [''amp_threshes'' \<mapsto> PTuple [PInt 2, PInt 3]])) ! 1 =
   BurstCall ex_shape ex_samples ex_sig
     (Some [''fs'' \<mapsto> PInt 1000, ''f_range'' \<mapsto> ex_f_range,
            ''amp_threshes'' \<mapsto> PTuple [PInt 1, PInt 2], ''filter_kwargs'' \<mapsto> PNone,
            ''n_cycles_min'' \<mapsto> PInt 3])"
proof -
  have h: "\<forall>r. DictRef 0 = DictRef r \<longrightarrow>
             ex_store [''n_cycles_min'' \<mapsto> PInt 5] r =
             ((ex_store [''n_cycles_min'' \<mapsto> PInt 5])(7 := [''amp_threshes'' \<mapsto> PNone])) r"
    by simp
  have a: "ex_store [''n_cycles_min'' \<mapsto> PInt 5] 0 =
     ((ex_store [''n_cycles_min'' \<mapsto> PInt 5])(7 := [''amp_threshes'' \<mapsto> PNone])) 0"
    by simp
  have b: "result (compute_features ex_collaborators ex_sig (PInt 1000) ex_f_range ''peak''
      ''amplitude'' (DictRef 0) PNone False False (ex_store [''n_cycles_min'' \<mapsto> PInt 5])) =
   result (compute_features ex_collaborators ex_sig (PInt 1000) ex_f_range ''peak'' ''amplitude''
      (DictRef 0) PNone False False
      ((ex_store [''n_cycles_min'' \<mapsto> PInt 5])(7 := [''amp_threshes'' \<mapsto> PNone])))"
    using repeated_call_outcome [of "DictRef 0" "ex_store [''n_cycles_min'' \<mapsto> PInt 5]"
        "(ex_store [''n_cycles_min'' \<mapsto> PInt 5])(7 := [''amp_threshes'' \<mapsto> PNone])"
        ex_collaborators ex_sig "PInt 1000" ex_f_range "''peak''" "''amplitude''" PNone False False]
      h by blast
  have c: "repeated_call ex_collaborators ex_sig (PInt 1000) ex_f_range ''peak'' ''cycles''
      (DictRef 0) PNone False False (ex_store [''n_cycles_min'' \<mapsto> PInt 5]) =
   compute_features ex_collaborators ex_sig (PInt 1000) ex_f_range ''peak'' ''cycles''
      (DictRef 0) PNone False False (ex_store [''n_cycles_min'' \<mapsto> PInt 5])"
    using repeated_call_outcome [of "DictRef 0" _ _ ex_collaborators ex_sig "PInt 1000"
        ex_f_range "''peak''" "''cycles''" PNone False False
        "ex_store [''n_cycles_min'' \<mapsto> PInt 5]"]
    by simp
  have s: "compute_shape_features ex_collaborators ex_sig (PInt 1000) ex_f_range ''peak'' PNone
      False = Inr (ex_shape, ex_samples)"
    by (simp add: ex_collaborators_def ex_compute_shape_features_def ex_sig_def)
  have n: "(case ex_store [''amp_threshes'' \<mapsto> PTuple [PInt 2, PInt 3]] 0 ''n_cycles_min'' of
             Some v \<Rightarrow> v | None \<Rightarrow> PInt 3) = PInt 3"
    by (simp add: ex_store_def)
  have d: "calls (repeated_call ex_collaborators ex_sig (PInt 1000) ex_f_range ''peak''
      ''amplitude'' (DictRef 0) PNone False False
      (ex_store [''amp_threshes'' \<mapsto> PTuple [PInt 2, PInt 3]])) ! 1 =
   BurstCall ex_shape ex_samples ex_sig
     (Some [''fs'' \<mapsto> PInt 1000, ''f_range'' \<mapsto> ex_f_range,
            ''amp_threshes'' \<mapsto> PTuple [PInt 1, PInt 2], ''filter_kwargs'' \<mapsto> PNone,
            ''n_cycles_min'' \<mapsto>
              (case ex_store [''amp_threshes'' \<mapsto> PTuple [PInt 2, PInt 3]] 0
                      ''n_cycles_min'' of
                 Some v \<Rightarrow> v | None \<Rightarrow> PInt 3)])"
    using repeated_call_outcome [of "DictRef 0" _ _ ex_collaborators ex_sig "PInt 1000"
        ex_f_range "''peak''" "''amplitude''" PNone False False
        "ex_store [''amp_threshes'' \<mapsto> PTuple [PInt 2, PInt 3]]"] s
    by blast
  from a b c d show ?thesis unfolding n by (intro conjI)
qed

section \<open>The dispatch on the mode\<close>

text \<open>
  C9. In mode \<^verbatim>\<open>'cycles'\<close> every call made belongs to the consistency path: the burst
  features are computed with \<^verbatim>\<open>dual_threshold_kwargs = None\<close>, and when the merged table
  exists it is classified by \<^verbatim>\<open>detect_bursts_cycles\<close> with the caller's keywords (none
  when \<^verbatim>\<open>burst_detection_kwargs\<close> is not a dictionary), whose result is what is returned.
  In mode \<^verbatim>\<open>'amplitude'\<close> every call made belongs to the dual-threshold path. With a
  dictionary, the burst features are computed with \<^verbatim>\<open>fs\<close>, \<^verbatim>\<open>f_range\<close> and the caller's
  \<^verbatim>\<open>amp_threshes\<close>, \<^verbatim>\<open>filter_kwargs\<close> and \<^verbatim>\<open>n_cycles_min\<close>, or \<^verbatim>\<open>(1, 2)\<close>, \<^verbatim>\<open>None\<close> and
  \<^verbatim>\<open>3\<close> where the caller gave none, and the merged table is classified by
  \<^verbatim>\<open>detect_bursts_df_amp\<close> with the caller's keywords less \<^verbatim>\<open>amp_threshes\<close> and
  \<^verbatim>\<open>filter_kwargs\<close>, whose result is what is returned. Where the classifiers append the
  column \<^verbatim>\<open>is_burst\<close>, the returned table is the merged table with that column appended.
  Without a dictionary (the default \<^verbatim>\<open>None\<close> included) the amplitude path stops at line
  115 with the exception of \<^verbatim>\<open>pop\<close>: once the shape features are computed, neither the
  burst features nor a classifier is reached. In any other mode no classifier is called.
\<close>

theorem mode_dispatch:
  "(burst_detection_method = ''cycles'' \<longrightarrow>
      (\<forall>ev \<in> set (calls (compute_features C sig fs f_range center_extrema burst_detection_method
            burst_detection_kwargs find_extrema_kwargs hilbert_increase_n return_samples \<sigma>)). consistency_call ev) \<and>
      (\<forall>df_shape df_samples df_burst df.
         compute_shape_features C sig fs f_range center_extrema find_extrema_kwargs
           hilbert_increase_n = Inr (df_shape, df_samples) \<and>
         compute_burst_features C df_shape df_samples sig None = Inr df_burst \<and>
         pd_concat C df_shape df_burst = Inr df \<longrightarrow>
         calls (compute_features C sig fs f_range center_extrema burst_detection_method
            burst_detection_kwargs find_extrema_kwargs hilbert_increase_n return_samples \<sigma>) =
           [ShapeCall sig fs f_range center_extrema find_extrema_kwargs hilbert_increase_n,
            BurstCall df_shape df_samples sig None,
            ConcatCall df_shape df_burst,
            CyclesCall df
              (case burst_detection_kwargs of
                 DictRef r \<Rightarrow> \<sigma> r | NonDict v \<Rightarrow> Map.empty)] \<and>
         result (compute_features C sig fs f_range center_extrema burst_detection_method
            burst_detection_kwargs find_extrema_kwargs hilbert_increase_n return_samples \<sigma>) =
           (case detect_bursts_cycles C df
              (case burst_detection_kwargs of
                 DictRef r \<Rightarrow> \<sigma> r | NonDict v \<Rightarrow> Map.empty) of
              Inl msg \<Rightarrow> Inl (Raised msg)
            | Inr out \<Rightarrow>
                Inr (if return_samples then FeaturesSamples out df_samples
                     else Features out)) \<and>
         (classifiers_append_is_burst C \<longrightarrow>
            (\<forall>ret. result (compute_features C sig fs f_range center_extrema burst_detection_method
            burst_detection_kwargs find_extrema_kwargs hilbert_increase_n return_samples \<sigma>) = Inr ret \<longrightarrow>
               (\<exists>flags. length flags = n_rows df \<and>
                  features_of ret = with_is_burst df flags))))) \<and>
   (burst_detection_method = ''amplitude'' \<longrightarrow>
      (\<forall>ev \<in> set (calls (compute_features C sig fs f_range center_extrema burst_detection_method
            burst_detection_kwargs find_extrema_kwargs hilbert_increase_n return_samples \<sigma>)). dual_threshold_call ev) \<and>
      (\<forall>r df_shape df_samples df_burst df.
         burst_detection_kwargs = DictRef r \<and>
         compute_shape_features C sig fs f_range center_extrema find_extrema_kwargs
           hilbert_increase_n = Inr (df_shape, df_samples) \<and>
         compute_burst_features C df_shape df_samples sig
           (Some [''fs'' \<mapsto> fs, ''f_range'' \<mapsto> f_range,
                   ''amp_threshes'' \<mapsto>
                     (case \<sigma> r ''amp_threshes'' of
                        Some v \<Rightarrow> v | None \<Rightarrow> PTuple [PInt 1, PInt 2]),
                   ''filter_kwargs'' \<mapsto>
                     (case \<sigma> r ''filter_kwargs'' of Some v \<Rightarrow> v | None \<Rightarrow> PNone),
                   ''n_cycles_min'' \<mapsto>
                     (case \<sigma> r ''n_cycles_min'' of Some v \<Rightarrow> v | None \<Rightarrow> PInt 3)]) = Inr df_burst \<and>
         pd_concat C df_shape df_burst = Inr df \<longrightarrow>
         calls (compute_features C sig fs f_range center_extrema burst_detection_method
            burst_detection_kwargs find_extrema_kwargs hilbert_increase_n return_samples \<sigma>) =
           [ShapeCall sig fs f_range center_extrema find_extrema_kwargs hilbert_increase_n,
            BurstCall df_shape df_samples sig
              (Some [''fs'' \<mapsto> fs, ''f_range'' \<mapsto> f_range,
                   ''amp_threshes'' \<mapsto>
                     (case \<sigma> r ''amp_threshes'' of
                        Some v \<Rightarrow> v | None \<Rightarrow> PTuple [PInt 1, PInt 2]),
                   ''filter_kwargs'' \<mapsto>
                     (case \<sigma> r ''filter_kwargs'' of Some v \<Rightarrow> v | None \<Rightarrow> PNone),
                   ''n_cycles_min'' \<mapsto>
                     (case \<sigma> r ''n_cycles_min'' of Some v \<Rightarrow> v | None \<Rightarrow> PInt 3)]),
            ConcatCall df_shape df_burst,
            DfAmpCall df ((\<sigma> r)(''amp_threshes'' := None, ''filter_kwargs'' := None))] \<and>
         result (compute_features C sig fs f_range center_extrema burst_detection_method
            burst_detection_kwargs find_extrema_kwargs hilbert_increase_n return_samples \<sigma>) =
           (case detect_bursts_df_amp C df
                   ((\<sigma> r)(''amp_threshes'' := None, ''filter_kwargs'' := None)) of
              Inl msg \<Rightarrow> Inl (Raised msg)
            | Inr out \<Rightarrow>
                Inr (if return_samples then FeaturesSamples out df_samples
                     else Features out)) \<and>
         (classifiers_append_is_burst C \<longrightarrow>
            (\<forall>ret. result (compute_features C sig fs f_range center_extrema burst_detection_method
            burst_detection_kwargs find_extrema_kwargs hilbert_increase_n return_samples \<sigma>) = Inr ret \<longrightarrow>
               (\<exists>flags. length flags = n_rows df \<and>
                  features_of ret = with_is_burst df flags)))) \<and>
      (\<forall>v df_shape df_samples.
         burst_detection_kwargs = NonDict v \<and>
         compute_shape_features C sig fs f_range center_extrema find_extrema_kwargs
           hilbert_increase_n = Inr (df_shape, df_samples) \<longrightarrow>
         result (compute_features C sig fs f_range center_extrema burst_detection_method
            burst_detection_kwargs find_extrema_kwargs hilbert_increase_n return_samples \<sigma>) = Inl (pop_on_nondict v) \<and>
         calls (compute_features C sig fs f_range center_extrema burst_detection_method
            burst_detection_kwargs find_extrema_kwargs hilbert_increase_n return_samples \<sigma>) =
           [ShapeCall sig fs f_range center_extrema find_extrema_kwargs
              hilbert_increase_n])) \<and>
   (burst_detection_method \<noteq> ''cycles'' \<and> burst_detection_method \<noteq> ''amplitude'' \<longrightarrow>
      (\<forall>ev \<in> set (calls (compute_features C sig fs f_range center_extrema burst_detection_method
            burst_detection_kwargs find_extrema_kwargs hilbert_increase_n return_samples \<sigma>)). \<not> classifier_call ev))"
proof (intro conjI impI allI)
  assume m: "burst_detection_method = ''cycles''"
  show "\<forall>ev \<in> set (calls (compute_features C sig fs f_range center_extrema burst_detection_method
            burst_detection_kwargs find_extrema_kwargs hilbert_increase_n return_samples \<sigma>)). consistency_call ev"
    unfolding m by (rule calls_cycles_mode)
next
  assume m: "burst_detection_method = ''amplitude''"
  show "\<forall>ev \<in> set (calls (compute_features C sig fs f_range center_extrema burst_detection_method
            burst_detection_kwargs find_extrema_kwargs hilbert_increase_n return_samples \<sigma>)). dual_threshold_call ev"
    unfolding m by (rule calls_amplitude_mode)
next
  assume m: "burst_detection_method \<noteq> ''cycles'' \<and> burst_detection_method \<noteq> ''amplitude''"
  show "\<forall>ev \<in> set (calls (compute_features C sig fs f_range center_extrema burst_detection_method
            burst_detection_kwargs find_extrema_kwargs hilbert_increase_n return_samples \<sigma>)). \<not> classifier_call ev"
    by (rule calls_other_mode) (use m in simp_all)
next
  fix df_shape df_samples df_burst df
  assume m: "burst_detection_method = ''cycles''"
    and h: "compute_shape_features C sig fs f_range center_extrema find_extrema_kwargs
           hilbert_increase_n = Inr (df_shape, df_samples) \<and>
         compute_burst_features C df_shape df_samples sig None = Inr df_burst \<and>
         pd_concat C df_shape df_burst = Inr df"
  from h have run: "compute_features C sig fs f_range center_extrema ''cycles''
           burst_detection_kwargs find_extrema_kwargs hilbert_increase_n return_samples \<sigma> =
         \<lparr>result =
            (case detect_bursts_cycles C df
              (case burst_detection_kwargs of
                 DictRef r \<Rightarrow> \<sigma> r | NonDict v \<Rightarrow> Map.empty) of
               Inl msg \<Rightarrow> Inl (Raised msg)
             | Inr out \<Rightarrow>
                 Inr (if return_samples then FeaturesSamples out df_samples
                      else Features out)),
          final_store = \<sigma>,
          calls =
            [ShapeCall sig fs f_range center_extrema find_extrema_kwargs hilbert_increase_n,
             BurstCall df_shape df_samples sig None,
             ConcatCall df_shape df_burst,
             CyclesCall df
              (case burst_detection_kwargs of
                 DictRef r \<Rightarrow> \<sigma> r | NonDict v \<Rightarrow> Map.empty)]\<rparr>"
    by (intro cycles_run) simp_all
  show "calls (compute_features C sig fs f_range center_extrema burst_detection_method
            burst_detection_kwargs find_extrema_kwargs hilbert_increase_n return_samples \<sigma>) =
           [ShapeCall sig fs f_range center_extrema find_extrema_kwargs hilbert_increase_n,
            BurstCall df_shape df_samples sig None,
            ConcatCall df_shape df_burst,
            CyclesCall df
              (case burst_detection_kwargs of
                 DictRef r \<Rightarrow> \<sigma> r | NonDict v \<Rightarrow> Map.empty)]"
    unfolding m run by simp
  show "result (compute_features C sig fs f_range center_extrema burst_detection_method
            burst_detection_kwargs find_extrema_kwargs hilbert_increase_n return_samples \<sigma>) =
           (case detect_bursts_cycles C df
              (case burst_detection_kwargs of
                 DictRef r \<Rightarrow> \<sigma> r | NonDict v \<Rightarrow> Map.empty) of
              Inl msg \<Rightarrow> Inl (Raised msg)
            | Inr out \<Rightarrow>
                Inr (if return_samples then FeaturesSamples out df_samples
                     else Features out))"
    unfolding m run by simp
  {
    fix ret
    assume c: "classifiers_append_is_burst C"
      and r: "result (compute_features C sig fs f_range center_extrema burst_detection_method
            burst_detection_kwargs find_extrema_kwargs hilbert_increase_n return_samples \<sigma>) = Inr ret"
    from r obtain out where
      o: "detect_bursts_cycles C df
              (case burst_detection_kwargs of
                 DictRef r \<Rightarrow> \<sigma> r | NonDict v \<Rightarrow> Map.empty) = Inr out"
      and f: "features_of ret = out"
      unfolding m run by (auto split: sum.splits if_splits)
    from is_burst_appended(1) [OF c o] f
    show "\<exists>flags. length flags = n_rows df \<and> features_of ret = with_is_burst df flags"
      by simp
  }
next
  fix r df_shape df_samples df_burst df
  assume m: "burst_detection_method = ''amplitude''"
    and h: "burst_detection_kwargs = DictRef r \<and>
         compute_shape_features C sig fs f_range center_extrema find_extrema_kwargs
           hilbert_increase_n = Inr (df_shape, df_samples) \<and>
         compute_burst_features C df_shape df_samples sig
           (Some [''fs'' \<mapsto> fs, ''f_range'' \<mapsto> f_range,
                   ''amp_threshes'' \<mapsto>
                     (case \<sigma> r ''amp_threshes'' of
                        Some v \<Rightarrow> v | None \<Rightarrow> PTuple [PInt 1, PInt 2]),
                   ''filter_kwargs'' \<mapsto>
                     (case \<sigma> r ''filter_kwargs'' of Some v \<Rightarrow> v | None \<Rightarrow> PNone),
                   ''n_cycles_min'' \<mapsto>
                     (case \<sigma> r ''n_cycles_min'' of Some v \<Rightarrow> v | None \<Rightarrow> PInt 3)]) = Inr df_burst \<and>
         pd_concat C df_shape df_burst = Inr df"
  from h have k: "burst_detection_kwargs = DictRef r" by simp
  from h have run: "compute_features C sig fs f_range center_extrema ''amplitude'' (DictRef r)
           find_extrema_kwargs hilbert_increase_n return_samples \<sigma> =
         \<lparr>result =
            (case detect_bursts_df_amp C df
                    ((\<sigma> r)(''amp_threshes'' := None, ''filter_kwargs'' := None)) of
               Inl msg \<Rightarrow> Inl (Raised msg)
             | Inr out \<Rightarrow>
                 Inr (if return_samples then FeaturesSamples out df_samples
                      else Features out)),
          final_store = \<sigma>(r := (\<sigma> r)(''amp_threshes'' := None, ''filter_kwargs'' := None)),
          calls =
            [ShapeCall sig fs f_range center_extrema find_extrema_kwargs hilbert_increase_n,
             BurstCall df_shape df_samples sig
               (Some [''fs'' \<mapsto> fs, ''f_range'' \<mapsto> f_range,
                   ''amp_threshes'' \<mapsto>
                     (case \<sigma> r ''amp_threshes'' of
                        Some v \<Rightarrow> v | None \<Rightarrow> PTuple [PInt 1, PInt 2]),
                   ''filter_kwargs'' \<mapsto>
                     (case \<sigma> r ''filter_kwargs'' of Some v \<Rightarrow> v | None \<Rightarrow> PNone),
                   ''n_cycles_min'' \<mapsto>
                     (case \<sigma> r ''n_cycles_min'' of Some v \<Rightarrow> v | None \<Rightarrow> PInt 3)]),
             ConcatCall df_shape df_burst,
             DfAmpCall df ((\<sigma> r)(''amp_threshes'' := None, ''filter_kwargs'' := None))]\<rparr>"
    by (intro amplitude_run) simp_all
  show "calls (compute_features C sig fs f_range center_extrema burst_detection_method
            burst_detection_kwargs find_extrema_kwargs hilbert_increase_n return_samples \<sigma>) =
           [ShapeCall sig fs f_range center_extrema find_extrema_kwargs hilbert_increase_n,
            BurstCall df_shape df_samples sig
              (Some [''fs'' \<mapsto> fs, ''f_range'' \<mapsto> f_range,
                   ''amp_threshes'' \<mapsto>
                     (case \<sigma> r ''amp_threshes'' of
                        Some v \<Rightarrow> v | None \<Rightarrow> PTuple [PInt 1, PInt 2]),
                   ''filter_kwargs'' \<mapsto>
                     (case \<sigma> r ''filter_kwargs'' of Some v \<Rightarrow> v | None \<Rightarrow> PNone),
                   ''n_cycles_min'' \<mapsto>
                     (case \<sigma> r ''n_cycles_min'' of Some v \<Rightarrow> v | None \<Rightarrow> PInt 3)]),
            ConcatCall df_shape df_burst,
            DfAmpCall df ((\<sigma> r)(''amp_threshes'' := None, ''filter_kwargs'' := None))]"
    unfolding m k run by simp
  show "result (compute_features C sig fs f_range center_extrema burst_detection_method
            burst_detection_kwargs find_extrema_kwargs hilbert_increase_n return_samples \<sigma>) =
           (case detect_bursts_df_amp C df
                   ((\<sigma> r)(''amp_threshes'' := None, ''filter_kwargs'' := None)) of
              Inl msg \<Rightarrow> Inl (Raised msg)
            | Inr out \<Rightarrow>
                Inr (if return_samples then FeaturesSamples out df_samples
                     else Features out))"
    unfolding m k run by simp
  {
    fix ret
    assume c: "classifiers_append_is_burst C"
      and r: "result (compute_features C sig fs f_range center_extrema burst_detection_method
            burst_detection_kwargs find_extrema_kwargs hilbert_increase_n return_samples \<sigma>) = Inr ret"
    from r obtain out where
      o: "detect_bursts_df_amp C df ((\<sigma> r)(''amp_threshes'' := None, ''filter_kwargs'' := None)) = Inr out"
      and f: "features_of ret = out"
      unfolding m k run by (auto split: sum.splits if_splits)
    from is_burst_appended(2) [OF c o] f
    show "\<exists>flags. length flags = n_rows df \<and> features_of ret = with_is_burst df flags"
      by simp
  }
next
  fix v df_shape df_samples
  assume m: "burst_detection_method = ''amplitude''"
    and h: "burst_detection_kwargs = NonDict v \<and>
         compute_shape_features C sig fs f_range center_extrema find_extrema_kwargs
           hilbert_increase_n = Inr (df_shape, df_samples)"
  from h have k: "burst_detection_kwargs = NonDict v" by simp
  from h have run: "compute_features C sig fs f_range center_extrema ''amplitude'' (NonDict v)
           find_extrema_kwargs hilbert_increase_n return_samples \<sigma> =
         \<lparr>result = Inl (pop_on_nondict v), final_store = \<sigma>,
          calls = [ShapeCall sig fs f_range center_extrema find_extrema_kwargs
                     hilbert_increase_n]\<rparr>"
    by (intro amplitude_nondict_run) simp
  show "result (compute_features C sig fs f_range center_extrema burst_detection_method
            burst_detection_kwargs find_extrema_kwargs hilbert_increase_n return_samples \<sigma>) = Inl (pop_on_nondict v)"
    unfolding m k run by simp
  show "calls (compute_features C sig fs f_range center_extrema burst_detection_method
            burst_detection_kwargs find_extrema_kwargs hilbert_increase_n return_samples \<sigma>) =
           [ShapeCall sig fs f_range center_extrema find_extrema_kwargs
              hilbert_increase_n]"
    unfolding m k run by simp
qed

theorem mode_dispatch_witness:
  "calls (compute_features ex_collaborators ex_sig (PInt 1000) ex_f_range ''peak'' ''cycles''
      (NonDict NNone) PNone False False (ex_store Map.empty)) =
     [ShapeCall ex_sig (PInt 1000) ex_f_range ''peak'' PNone False,
      BurstCall ex_shape ex_samples ex_sig None,
      ConcatCall ex_shape ex_consistency,
      CyclesCall (ex_merged ex_consistency) Map.empty] \<and>
   calls (compute_features ex_collaborators ex_sig (PInt 1000) ex_f_range ''peak'' ''amplitude''
      (DictRef 0) PNone False False (ex_store [''amp_threshes'' \<mapsto> PTuple [PInt 2, PInt 3]])) =
     [ShapeCall ex_sig (PInt 1000) ex_f_range ''peak'' PNone False,
      BurstCall ex_shape ex_samples ex_sig
        (Some [''fs'' \<mapsto> PInt 1000, ''f_range'' \<mapsto> ex_f_range,
               ''amp_threshes'' \<mapsto> PTuple [PInt 2, PInt 3], ''filter_kwargs'' \<mapsto> PNone,
               ''n_cycles_min'' \<mapsto> PInt 3]),
      ConcatCall ex_shape (ex_burst_fraction 0),
      DfAmpCall (ex_merged (ex_burst_fraction 0)) Map.empty] \<and>
   (\<exists>flags. length flags = n_rows (ex_merged (ex_burst_fraction 0)) \<and>
      features_of (Features (ex_is_burst (ex_merged (ex_burst_fraction 0)))) =
        with_is_burst (ex_merged (ex_burst_fraction 0)) flags) \<and>
   result (compute_features ex_collaborators ex_sig (PInt 1000) ex_f_range ''peak'' ''amplitude''
      (NonDict NNone) PNone False False (ex_store Map.empty)) = Inl AttributeError \<and>
   calls (compute_features ex_collaborators ex_sig (PInt 1000) ex_f_range ''peak'' ''amplitude''
      (NonDict NNone) PNone False False (ex_store Map.empty)) =
     [ShapeCall ex_sig (PInt 1000) ex_f_range ''peak'' PNone False]"
proof -
  let ?d = "ex_store [''amp_threshes'' \<mapsto> PTuple [PInt 2, PInt 3]]"
  have s: "compute_shape_features ex_collaborators ex_sig (PInt 1000) ex_f_range ''peak'' PNone
      False = Inr (ex_shape, ex_samples)"
    by (simp add: ex_collaborators_def ex_compute_shape_features_def ex_sig_def)
  have b1: "compute_burst_features ex_collaborators ex_shape ex_samples ex_sig None =
      Inr ex_consistency"
    by (simp add: ex_collaborators_def ex_compute_burst_features_def ex_shape_def
        ex_consistency_def)
  have c1: "pd_concat ex_collaborators ex_shape ex_consistency = Inr (ex_merged ex_consistency)"
    by (simp add: ex_collaborators_def ex_pd_concat_def ex_shape_def ex_consistency_def
        ex_merged_def)
  have d: "[''fs'' \<mapsto> PInt 1000, ''f_range'' \<mapsto> ex_f_range,
            ''amp_threshes'' \<mapsto>
              (case ?d 0 ''amp_threshes'' of Some v \<Rightarrow> v | None \<Rightarrow> PTuple [PInt 1, PInt 2]),
            ''filter_kwargs'' \<mapsto> (case ?d 0 ''filter_kwargs'' of Some v \<Rightarrow> v | None \<Rightarrow> PNone),
            ''n_cycles_min'' \<mapsto> (case ?d 0 ''n_cycles_min'' of Some v \<Rightarrow> v | None \<Rightarrow> PInt 3)] =
           [''fs'' \<mapsto> PInt 1000, ''f_range'' \<mapsto> ex_f_range,
            ''amp_threshes'' \<mapsto> PTuple [PInt 2, PInt 3], ''filter_kwargs'' \<mapsto> PNone,
            ''n_cycles_min'' \<mapsto> PInt 3]"
    by (simp add: ex_store_def)
  have b2: "compute_burst_features ex_collaborators ex_shape ex_samples ex_sig
      (Some [''fs'' \<mapsto> PInt 1000, ''f_range'' \<mapsto> ex_f_range,
            ''amp_threshes'' \<mapsto>
              (case ?d 0 ''amp_threshes'' of Some v \<Rightarrow> v | None \<Rightarrow> PTuple [PInt 1, PInt 2]),
            ''filter_kwargs'' \<mapsto> (case ?d 0 ''filter_kwargs'' of Some v \<Rightarrow> v | None \<Rightarrow> PNone),
            ''n_cycles_min'' \<mapsto> (case ?d 0 ''n_cycles_min'' of Some v \<Rightarrow> v | None \<Rightarrow> PInt 3)]) =
      Inr (ex_burst_fraction 0)"
    unfolding d
    by (simp add: ex_collaborators_def ex_compute_burst_features_def ex_shape_def
        ex_burst_fraction_def)
  have c2: "pd_concat ex_collaborators ex_shape (ex_burst_fraction 0) =
      Inr (ex_merged (ex_burst_fraction 0))"
    by (simp add: ex_collaborators_def ex_pd_concat_def ex_shape_def ex_burst_fraction_def
        ex_merged_def)
  have k: "(?d 0)(''amp_threshes'' := None, ''filter_kwargs'' := None) = Map.empty"
    by (simp add: ex_store_def)
  have cl: "detect_bursts_df_amp ex_collaborators (ex_merged (ex_burst_fraction 0)) Map.empty =
      Inr (ex_is_burst (ex_merged (ex_burst_fraction 0)))"
    by (simp add: ex_collaborators_def ex_detect_bursts_df_amp_def)
  note cyc = mode_dispatch [of "''cycles''" ex_collaborators ex_sig "PInt 1000" ex_f_range
      "''peak''" "NonDict NNone" PNone False False "ex_store Map.empty"]
  note amp = mode_dispatch [of "''amplitude''" ex_collaborators ex_sig "PInt 1000" ex_f_range
      "''peak''" "DictRef 0" PNone False False ?d]
  note non = mode_dispatch [of "''amplitude''" ex_collaborators ex_sig "PInt 1000" ex_f_range
      "''peak''" "NonDict NNone" PNone False False "ex_store Map.empty"]
  from cyc s b1 c1
  have 1: "calls (compute_features ex_collaborators ex_sig (PInt 1000) ex_f_range ''peak''
      ''cycles'' (NonDict NNone) PNone False False (ex_store Map.empty)) =
     [ShapeCall ex_sig (PInt 1000) ex_f_range ''peak'' PNone False,
      BurstCall ex_shape ex_samples ex_sig None,
      ConcatCall ex_shape ex_consistency,
      CyclesCall (ex_merged ex_consistency)
        (case NonDict NNone of DictRef r \<Rightarrow> ex_store Map.empty r | NonDict v \<Rightarrow> Map.empty)]"
    by blast
  from amp s b2 c2
  have 2: "calls (compute_features ex_collaborators ex_sig (PInt 1000) ex_f_range ''peak''
      ''amplitude'' (DictRef 0) PNone False False ?d) =
     [ShapeCall ex_sig (PInt 1000) ex_f_range ''peak'' PNone False,
      BurstCall ex_shape ex_samples ex_sig
        (Some [''fs'' \<mapsto> PInt 1000, ''f_range'' \<mapsto> ex_f_range,
            ''amp_threshes'' \<mapsto>
              (case ?d 0 ''amp_threshes'' of Some v \<Rightarrow> v | None \<Rightarrow> PTuple [PInt 1, PInt 2]),
            ''filter_kwargs'' \<mapsto> (case ?d 0 ''filter_kwargs'' of Some v \<Rightarrow> v | None \<Rightarrow> PNone),
            ''n_cycles_min'' \<mapsto> (case ?d 0 ''n_cycles_min'' of Some v \<Rightarrow> v | None \<Rightarrow> PInt 3)]),
      ConcatCall ex_shape (ex_burst_fraction 0),
      DfAmpCall (ex_merged (ex_burst_fraction 0))
        ((?d 0)(''amp_threshes'' := None, ''filter_kwargs'' := None))]"
    and 3: "result (compute_features ex_collaborators ex_sig (PInt 1000) ex_f_range ''peak''
      ''amplitude'' (DictRef 0) PNone False False ?d) =
      (case detect_bursts_df_amp ex_collaborators (ex_merged (ex_burst_fraction 0))
               ((?d 0)(''amp_threshes'' := None, ''filter_kwargs'' := None)) of
         Inl msg \<Rightarrow> Inl (Raised msg)
       | Inr out \<Rightarrow> Inr (if False then FeaturesSamples out ex_samples else Features out))"
    by blast+
  from 3 have f3: "result (compute_features ex_collaborators ex_sig (PInt 1000) ex_f_range
      ''peak'' ''amplitude'' (DictRef 0) PNone False False ?d) =
      Inr (Features (ex_is_burst (ex_merged (ex_burst_fraction 0))))"
    unfolding k cl by simp
  from amp s b2 c2 ex_appends_is_burst f3
  have 4: "\<exists>flags. length flags = n_rows (ex_merged (ex_burst_fraction 0)) \<and>
      features_of (Features (ex_is_burst (ex_merged (ex_burst_fraction 0)))) =
        with_is_burst (ex_merged (ex_burst_fraction 0)) flags"
    by blast
  from non s
  have 5: "result (compute_features ex_collaborators ex_sig (PInt 1000) ex_f_range ''peak''
      ''amplitude'' (NonDict NNone) PNone False False (ex_store Map.empty)) =
      Inl (pop_on_nondict NNone)"
    and 6: "calls (compute_features ex_collaborators ex_sig (PInt 1000) ex_f_range ''peak''
      ''amplitude'' (NonDict NNone) PNone False False (ex_store Map.empty)) =
     [ShapeCall ex_sig (PInt 1000) ex_f_range ''peak'' PNone False]"
    by blast+
  from 1 have f1: "calls (compute_features ex_collaborators ex_sig (PInt 1000) ex_f_range
      ''peak'' ''cycles'' (NonDict NNone) PNone False False (ex_store Map.empty)) =
     [ShapeCall ex_sig (PInt 1000) ex_f_range ''peak'' PNone False,
      BurstCall ex_shape ex_samples ex_sig None,
      ConcatCall ex_shape ex_consistency,
      CyclesCall (ex_merged ex_consistency) Map.empty]"
    by simp
  from 2 have f2: "calls (compute_features ex_collaborators ex_sig (PInt 1000) ex_f_range
      ''peak'' ''amplitude'' (DictRef 0) PNone False False ?d) =
     [ShapeCall ex_sig (PInt 1000) ex_f_range ''peak'' PNone False,
      BurstCall ex_shape ex_samples ex_sig
        (Some [''fs'' \<mapsto> PInt 1000, ''f_range'' \<mapsto> ex_f_range,
               ''amp_threshes'' \<mapsto> PTuple [PInt 2, PInt 3], ''filter_kwargs'' \<mapsto> PNone,
               ''n_cycles_min'' \<mapsto> PInt 3]),
      ConcatCall ex_shape (ex_burst_fraction 0),
      DfAmpCall (ex_merged (ex_burst_fraction 0)) Map.empty]"
    unfolding d k .
  from 5 have f5: "result (compute_features ex_collaborators ex_sig (PInt 1000) ex_f_range
      ''peak'' ''amplitude'' (NonDict NNone) PNone False False (ex_store Map.empty)) =
      Inl AttributeError"
    by simp
  from f1 f2 4 f5 6 show ?thesis by (intro conjI)
qed

section \<open>Cycles mode with a \<^verbatim>\<open>burst_detection_kwargs\<close> that is no dictionary\<close>

text \<open>
  C10. In mode \<^verbatim>\<open>'cycles'\<close> a \<^verbatim>\<open>burst_detection_kwargs\<close> that is not a dictionary
  (\<^verbatim>\<open>None\<close> included) acts as the empty dictionary: the call returns what it returns
  for an empty dictionary and makes the same calls, \<^verbatim>\<open>detect_bursts_cycles\<close> is given
  no keyword, and none of the exceptions of \<^verbatim>\<open>compute_features\<close> itself is raised.
\<close>

theorem cycles_nondict_kwargs_become_empty:
  "result (compute_features C sig fs f_range center_extrema ''cycles'' (NonDict v)
      find_extrema_kwargs hilbert_increase_n return_samples \<sigma>) =
   result (compute_features C sig fs f_range center_extrema ''cycles'' (DictRef r)
      find_extrema_kwargs hilbert_increase_n return_samples (\<sigma>(r := Map.empty))) \<and>
   calls (compute_features C sig fs f_range center_extrema ''cycles'' (NonDict v)
      find_extrema_kwargs hilbert_increase_n return_samples \<sigma>) =
   calls (compute_features C sig fs f_range center_extrema ''cycles'' (DictRef r)
      find_extrema_kwargs hilbert_increase_n return_samples (\<sigma>(r := Map.empty))) \<and>
   (\<forall>df kwargs.
      CyclesCall df kwargs \<in> set (calls (compute_features C sig fs f_range center_extrema
        ''cycles'' (NonDict v) find_extrema_kwargs hilbert_increase_n return_samples \<sigma>)) \<longrightarrow>
      kwargs = Map.empty) \<and>
   result (compute_features C sig fs f_range center_extrema ''cycles'' (NonDict v)
      find_extrema_kwargs hilbert_increase_n return_samples \<sigma>) \<notin>
     {Inl AttributeError, Inl TypeError, Inl ValueError}"
  by (auto simp: cf_simps split: sum.splits prod.splits)

theorem cycles_nondict_kwargs_become_empty_witness:
  "compute_features ex_collaborators ex_sig (PInt 1000) ex_f_range ''peak'' ''cycles''
      (NonDict (NStr ''n_cycles_min=5'')) PNone False False (ex_store Map.empty) =
   \<lparr>result = Inr (Features (ex_is_burst (ex_merged ex_consistency))),
    final_store = ex_store Map.empty,
    calls = [ShapeCall ex_sig (PInt 1000) ex_f_range ''peak'' PNone False,
             BurstCall ex_shape ex_samples ex_sig None,
             ConcatCall ex_shape ex_consistency,
             CyclesCall (ex_merged ex_consistency) Map.empty]\<rparr>"
  using cycles_nondict_kwargs_become_empty [of ex_collaborators ex_sig "PInt 1000" ex_f_range
      "''peak''" "NStr ''n_cycles_min=5''" PNone False False "ex_store Map.empty" 0]
  by (simp add: cf_simps ex_defs)

end
